theory Spec2Isabelle
  imports Complex_Main "HOL-Library.Word"
begin

section \<open>Values shared by ElectrumApi.ts and Agent.ts\<close>

text \<open>
  A rejected promise or a thrown exception is a value of type \<open>error\<close>:
  \<open>Error msg\<close> is JavaScript's \<^verbatim>\<open>new Error(msg)\<close> (also the rejection of a request by
  the socket), \<open>TypeError msg\<close> is what the runtime throws when a property of
  \<^verbatim>\<open>null\<close> or \<^verbatim>\<open>undefined\<close> is read. An asynchronous function returns \<open>error + 'a\<close>,
  and \<open>await p k\<close> continues with \<open>k\<close> on the value of \<open>p\<close> or rethrows its error.
\<close>

datatype error = Error string | TypeError string

definition await :: "error + 'a \<Rightarrow> ('a \<Rightarrow> error + 'b) \<Rightarrow> error + 'b" where
  "await p k = (case p of Inl e \<Rightarrow> Inl e | Inr v \<Rightarrow> k v)"

type_synonym byte = "8 word"

text \<open>types.ts is not part of the sources read here; the records list the fields that
  ElectrumApi.ts and Agent.ts read and write.\<close>

record PlainBlockHeader =
  blockHash :: string
  blockHeight :: int
  timestamp :: nat
  bits :: nat
  nonce :: nat
  version :: int
  weight :: nat
  prevHash :: "string option"
  merkleRoot :: "string option"

record PlainInput =
  in_script :: string
  in_transactionHash :: string
  in_address :: "string option"
  in_witness :: "string list"
  in_index :: nat
  in_outputIndex :: nat
  in_sequence :: nat

record PlainOutput =
  out_script :: string
  out_address :: string
  out_value :: int
  out_index :: nat

record PlainTransaction =
  transactionHash :: string
  inputs :: "PlainInput list"
  outputs :: "PlainOutput list"
  tx_version :: int
  vsize :: nat
  isCoinbase :: bool
  tx_weight :: nat
  tx_blockHash :: "string option"
  tx_blockHeight :: "int option"
  tx_timestamp :: "nat option"
  replaceByFee :: bool

record Receipt =
  r_blockHeight :: int
  r_transactionHash :: string
  r_fee :: "int option"

record Balance =
  confirmed :: int
  unconfirmed :: int

record Ports =
  tcp :: "int option"
  ssl :: "int option"
  wss :: "int option"

record Peer =
  ip :: string
  host :: string
  peer_version :: string
  pruningLimit :: "int option"
  ports :: Ports

subsection \<open>What bitcoinjs-lib, the hex helpers and WebCrypto provide\<close>

record TxInput =
  txin_script :: "byte list"
  txin_hash :: "byte list"
  txin_index :: nat
  txin_sequence :: nat
  txin_witness :: "byte list list"

record TxOutput =
  txout_script :: "byte list"
  txout_value :: int

text \<open>A decoded \<^verbatim>\<open>BitcoinJS.Transaction\<close>: its fields and the results of its methods.\<close>

record Transaction =
  getId :: string
  ins :: "TxInput list"
  outs :: "TxOutput list"
  btx_version :: int
  virtualSize :: nat
  btx_isCoinbase :: bool
  btx_weight :: nat

text \<open>A decoded \<^verbatim>\<open>BitcoinJS.Block\<close>.\<close>

record Block =
  blk_getId :: string
  blk_timestamp :: nat
  blk_bits :: nat
  blk_nonce :: nat
  blk_version :: int
  blk_weight :: nat
  blk_prevHash :: "byte list option"
  blk_merkleRoot :: "byte list option"

datatype Network = Bitcoin | Testnet | Regtest

text \<open>
  The functions that ElectrumApi.ts imports and does not define are parameters of the
  model, collected in one record: \<open>hexToBytes\<close> and \<open>bytesToHex\<close> of electrum-ws,
  \<^verbatim>\<open>crypto.subtle.digest('SHA-256', _)\<close>, the decoders and address functions of
  bitcoinjs-lib (already applied to \<^verbatim>\<open>this.options.network\<close>) and \<^verbatim>\<open>Number.parseInt(_, 10)\<close>
  (\<open>None\<close> for NaN). \<open>deriveAddressFromInput\<close> is a chain of bitcoinjs-lib payment
  constructors and is taken as a parameter with them. Nothing is assumed about any of them.
\<close>

record lib =
  hexToBytes :: "string \<Rightarrow> byte list"
  bytesToHex :: "byte list \<Rightarrow> string"
  sha256 :: "byte list \<Rightarrow> byte list"
  Transaction_fromHex :: "string \<Rightarrow> error + Transaction"
  Block_fromHex :: "string \<Rightarrow> error + Block"
  fromOutputScript :: "byte list \<Rightarrow> error + string"
  toOutputScript :: "string \<Rightarrow> error + byte list"
  deriveAddressFromInput :: "TxInput \<Rightarrow> error + string option"
  parseInt :: "string \<Rightarrow> int option"

subsection \<open>The socket\<close>

record HistoryEntry =
  height :: int
  tx_hash :: string
  fee :: "int option"

record MerkleProof =
  block_height :: int
  merkle :: "string list"
  pos :: int

text \<open>
  \<^verbatim>\<open>this.socket.request(method, ...params)\<close>: one field per Electrum method that
  ElectrumApi.ts requests, giving the peer's answer to the parameters (\<open>Inl\<close> when the
  request is rejected). The peer answers the same request the same way.
\<close>

record ElectrumWS =
  scripthash_get_balance :: "string \<Rightarrow> error + Balance"
  scripthash_get_history :: "string \<Rightarrow> error + HistoryEntry list"
  transaction_get_merkle :: "string \<Rightarrow> int \<Rightarrow> error + MerkleProof"
  transaction_get :: "string \<Rightarrow> error + string"
  block_header :: "int \<Rightarrow> error + string"
  transaction_broadcast :: "string \<Rightarrow> error + string"
  mempool_get_fee_histogram :: "error + (int \<times> int) list"
  server_peers_subscribe :: "error + (string \<times> string \<times> string list) list"

section \<open>ElectrumApi.ts\<close>

definition addressToScriptHash :: "lib \<Rightarrow> string \<Rightarrow> error + string" where
  "addressToScriptHash L addr =
     await (toOutputScript L addr) (\<lambda>outputScript.
       Inr (bytesToHex L (rev (sha256 L outputScript))))"

definition getBalance :: "lib \<Rightarrow> ElectrumWS \<Rightarrow> string \<Rightarrow> error + Balance" where
  "getBalance L sock address =
     await (addressToScriptHash L address) (\<lambda>sh. scripthash_get_balance sock sh)"

text \<open>\<^verbatim>\<open>...(r.fee ? { fee: r.fee } : {})\<close>: the fee is copied when it is present and truthy,
  that is, not zero.\<close>

definition toReceipt :: "HistoryEntry \<Rightarrow> Receipt" where
  "toReceipt r =
     \<lparr> r_blockHeight = height r,
       r_transactionHash = tx_hash r,
       r_fee = (case fee r of None \<Rightarrow> None | Some f \<Rightarrow> if f \<noteq> 0 then Some f else None) \<rparr>"

definition getReceipts :: "lib \<Rightarrow> ElectrumWS \<Rightarrow> string \<Rightarrow> bool \<Rightarrow> error + Receipt list" where
  "getReceipts L sock address isScriptHash =
     await (if isScriptHash then Inr address else addressToScriptHash L address) (\<lambda>sh.
     await (scripthash_get_history sock sh) (\<lambda>receipts.
       Inr (map toReceipt receipts)))"

definition inputToPlain :: "lib \<Rightarrow> TxInput \<Rightarrow> nat \<Rightarrow> error + PlainInput" where
  "inputToPlain L input index =
     await (deriveAddressFromInput L input) (\<lambda>derived.
       Inr \<lparr> in_script = bytesToHex L (txin_script input),
             in_transactionHash = bytesToHex L (rev (txin_hash input)),
             in_address = (case derived of None \<Rightarrow> None
                           | Some a \<Rightarrow> if a = [] then None else Some a),
             in_witness = map (bytesToHex L) (txin_witness input),
             in_index = index,
             in_outputIndex = txin_index input,
             in_sequence = txin_sequence input \<rparr>)"

definition outputToPlain :: "lib \<Rightarrow> TxOutput \<Rightarrow> nat \<Rightarrow> error + PlainOutput" where
  "outputToPlain L output index =
     await (fromOutputScript L (txout_script output)) (\<lambda>address.
       Inr \<lparr> out_script = bytesToHex L (txout_script output),
             out_address = address,
             out_value = txout_value output,
             out_index = index \<rparr>)"

text \<open>\<^verbatim>\<open>xs.map((x, index) => f(x, index))\<close> where \<open>f\<close> may throw: the first exception ends
  the map.\<close>

fun mapIndexed :: "('a \<Rightarrow> nat \<Rightarrow> error + 'b) \<Rightarrow> nat \<Rightarrow> 'a list \<Rightarrow> error + 'b list" where
  "mapIndexed f i [] = Inr []"
| "mapIndexed f i (x # xs) =
     await (f x i) (\<lambda>y. await (mapIndexed f (Suc i) xs) (\<lambda>ys. Inr (y # ys)))"

definition transactionToPlain ::
  "lib \<Rightarrow> string + Transaction \<Rightarrow> PlainBlockHeader option \<Rightarrow> error + PlainTransaction" where
  "transactionToPlain L tx plainHeader =
     await (case tx of Inl s \<Rightarrow> Transaction_fromHex L s | Inr t \<Rightarrow> Inr t) (\<lambda>tx.
     await (mapIndexed (inputToPlain L) 0 (ins tx)) (\<lambda>inputs.
     await (mapIndexed (outputToPlain L) 0 (outs tx)) (\<lambda>outputs.
       let plain = \<lparr> transactionHash = getId tx,
                     inputs = inputs,
                     outputs = outputs,
                     tx_version = btx_version tx,
                     vsize = virtualSize tx,
                     isCoinbase = btx_isCoinbase tx,
                     tx_weight = btx_weight tx,
                     tx_blockHash = None,
                     tx_blockHeight = None,
                     tx_timestamp = None,
                     replaceByFee = list_ex (\<lambda>input. in_sequence input < 0xfffffffe) inputs \<rparr>
       in Inr (case plainHeader of
                 None \<Rightarrow> plain
               | Some h \<Rightarrow> plain\<lparr> tx_blockHash := Some (blockHash h),
                                 tx_blockHeight := Some (blockHeight h),
                                 tx_timestamp := Some (timestamp h) \<rparr>))))"

definition blockHeaderToPlain :: "lib \<Rightarrow> string + Block \<Rightarrow> int \<Rightarrow> error + PlainBlockHeader" where
  "blockHeaderToPlain L header h =
     await (case header of Inl s \<Rightarrow> Block_fromHex L s | Inr b \<Rightarrow> Inr b) (\<lambda>header.
       Inr \<lparr> blockHash = blk_getId header,
             blockHeight = h,
             timestamp = blk_timestamp header,
             bits = blk_bits header,
             nonce = blk_nonce header,
             version = blk_version header,
             weight = blk_weight header,
             prevHash = map_option (\<lambda>p. bytesToHex L (rev p)) (blk_prevHash header),
             merkleRoot = map_option (\<lambda>m. bytesToHex L (rev m)) (blk_merkleRoot header) \<rparr>)"

definition getBlockHeader :: "lib \<Rightarrow> ElectrumWS \<Rightarrow> int \<Rightarrow> error + PlainBlockHeader" where
  "getBlockHeader L sock h =
     await (block_header sock h) (\<lambda>raw. blockHeaderToPlain L (Inl raw) h)"

text \<open>
  The loop of \<open>getTransactionMerkleRoot\<close>. \<open>i\<close> is \<^verbatim>\<open>proof.pos\<close>, an integer:
  \<^verbatim>\<open>i % 2 === 0\<close> holds exactly for the even ones (also the negative ones, where JavaScript's
  remainder is \<open>-0\<close> or \<open>-1\<close>), and \<^verbatim>\<open>Math.floor(i / 2)\<close> is \<open>i div 2\<close>.
\<close>

fun merkleLoop :: "lib \<Rightarrow> int \<Rightarrow> byte list \<Rightarrow> string list \<Rightarrow> byte list" where
  "merkleLoop L i node [] = node"
| "merkleLoop L i node (pairHash # rest) =
     (let pairNode = rev (hexToBytes L pairHash);
          concatenated = (if i mod 2 = 0 then node @ pairNode else pairNode @ node);
          node' = sha256 L (sha256 L concatenated)
      in merkleLoop L (i div 2) node' rest)"

definition getTransactionMerkleRoot :: "lib \<Rightarrow> ElectrumWS \<Rightarrow> string \<Rightarrow> int \<Rightarrow> error + string" where
  "getTransactionMerkleRoot L sock hash h =
     await (transaction_get_merkle sock hash h) (\<lambda>proof.
       Inr (bytesToHex L (rev (merkleLoop L (pos proof) (rev (hexToBytes L hash)) (merkle proof)))))"

text \<open>The text that a template literal prints for an integer.\<close>

fun digitsOf :: "nat \<Rightarrow> string" where
  "digitsOf n = (if n < 10 then [''0123456789'' ! n]
                 else digitsOf (n div 10) @ [''0123456789'' ! (n mod 10)])"

declare digitsOf.simps [simp del]

definition numberToString :: "int \<Rightarrow> string" where
  "numberToString i = (if i < 0 then CHR ''-'' # digitsOf (nat (- i)) else digitsOf (nat i))"

definition invalidMerkleProof :: "string \<Rightarrow> int \<Rightarrow> error" where
  "invalidMerkleProof hash h =
     Error (''Invalid merkle proof for given block height: '' @ hash @ '', '' @ numberToString h)"

text \<open>
  \<open>getTransaction(hash, heightOrBlockHeader?)\<close>: the optional argument is absent
  (\<open>None\<close>), a number (\<open>Some (Inl n)\<close>) or a header object (\<open>Some (Inr b)\<close>).
  \<open>merkleRoot\<close> of a header may be \<^verbatim>\<open>null\<close>, which no computed root equals.
\<close>

definition getTransaction ::
  "lib \<Rightarrow> ElectrumWS \<Rightarrow> string \<Rightarrow> (int + PlainBlockHeader) option \<Rightarrow> error + PlainTransaction" where
  "getTransaction L sock hash heightOrBlockHeader =
     await (case heightOrBlockHeader of
              Some (Inr b) \<Rightarrow> Inr (Some b)
            | Some (Inl n) \<Rightarrow> if n > 0 then await (getBlockHeader L sock n) (\<lambda>b. Inr (Some b))
                              else Inr None
            | None \<Rightarrow> Inr None) (\<lambda>blockHeader.
     await (case blockHeader of
              None \<Rightarrow> Inr ()
            | Some b \<Rightarrow>
                await (getTransactionMerkleRoot L sock hash (blockHeight b)) (\<lambda>transactionMerkleRoot.
                  if Some transactionMerkleRoot \<noteq> merkleRoot b
                  then Inl (invalidMerkleProof hash (blockHeight b))
                  else Inr ())) (\<lambda>_.
     await (transaction_get sock hash) (\<lambda>raw.
       transactionToPlain L (Inl raw) blockHeader)))"

definition broadcastTransaction :: "lib \<Rightarrow> ElectrumWS \<Rightarrow> string \<Rightarrow> error + PlainTransaction" where
  "broadcastTransaction L sock rawTx =
     await (transactionToPlain L (Inl rawTx) None) (\<lambda>tx.
     await (transaction_broadcast sock rawTx) (\<lambda>hash.
       if hash = transactionHash tx then Inr tx else Inl (Error hash)))"

definition getFeeHistogram :: "ElectrumWS \<Rightarrow> error + (int \<times> int) list" where
  "getFeeHistogram sock = mempool_get_fee_histogram sock"

text \<open>\<open>subscribeReceipts\<close> registers the callback under the script hash of the address; the
  call to \<^verbatim>\<open>socket.subscribe\<close> is not awaited, so only the address conversion can fail.
  The result is the script hash subscribed to.\<close>

definition subscribeReceipts :: "lib \<Rightarrow> ElectrumWS \<Rightarrow> string \<Rightarrow> error + string" where
  "subscribeReceipts L sock address = await (addressToScriptHash L address) (\<lambda>sh. Inr sh)"

text \<open>\<open>getPeers\<close>: each feature token is dispatched on its first character;
  \<^verbatim>\<open>''.charAt(0)\<close> is the empty string and matches no case. A port or pruning limit
  that \<open>parseInt\<close> reads as NaN is shown as \<open>None\<close>, like a missing one.\<close>

definition emptyPeer :: "string \<Rightarrow> string \<Rightarrow> Peer" where
  "emptyPeer i h =
     \<lparr> ip = i, host = h, peer_version = [], pruningLimit = None,
       ports = \<lparr> tcp = None, ssl = None, wss = None \<rparr> \<rparr>"

definition peerMeta :: "lib \<Rightarrow> Network option \<Rightarrow> Peer \<Rightarrow> string \<Rightarrow> Peer" where
  "peerMeta L net p meta =
     (case meta of
        [] \<Rightarrow> p
      | c # rest \<Rightarrow>
          if c = CHR ''v'' then p\<lparr> peer_version := rest \<rparr>
          else if c = CHR ''p'' then p\<lparr> pruningLimit := parseInt L rest \<rparr>
          else if c = CHR ''t'' then
            p\<lparr> ports := (ports p)\<lparr> tcp :=
                 (if rest = [] then Some (if net = Some Testnet then 60001 else 50001)
                  else parseInt L rest) \<rparr> \<rparr>
          else if c = CHR ''s'' then
            p\<lparr> ports := (ports p)\<lparr> ssl :=
                 (if rest = [] then Some (if net = Some Testnet then 60002 else 50002)
                  else parseInt L rest) \<rparr> \<rparr>
          else if c = CHR ''w'' then
            p\<lparr> ports := (ports p)\<lparr> wss :=
                 (if rest = [] then Some (if net = Some Testnet then 60004 else 50004)
                  else parseInt L rest) \<rparr> \<rparr>
          else p)"

definition getPeers :: "lib \<Rightarrow> Network option \<Rightarrow> ElectrumWS \<Rightarrow> error + Peer list" where
  "getPeers L net sock =
     await (server_peers_subscribe sock) (\<lambda>peers.
       Inr (map (\<lambda>(i, h, metas). foldl (peerMeta L net) (emptyPeer i h) metas) peers))"

subsection \<open>getHistory\<close>

definition MAX_SAFE_INTEGER :: int where
  "MAX_SAFE_INTEGER = 9007199254740991"

text \<open>\<^verbatim>\<open>history.sort((a, b) => (b.blockHeight || MAX) - (a.blockHeight || MAX))\<close>:
  a stable sort, descending in \<open>blockHeight || MAX\<close> (height 0 counts as the largest).\<close>

definition heightOrMax :: "Receipt \<Rightarrow> int" where
  "heightOrMax r = (if r_blockHeight r = 0 then MAX_SAFE_INTEGER else r_blockHeight r)"

definition sortHistory :: "Receipt list \<Rightarrow> Receipt list" where
  "sortHistory history = sort_key (\<lambda>r. - heightOrMax r) history"

text \<open>\<^verbatim>\<open>xs.slice(0, end)\<close> for an integer \<open>end\<close>: a negative \<open>end\<close> counts from the back.\<close>

definition slice0 :: "'a list \<Rightarrow> int \<Rightarrow> 'a list" where
  "slice0 xs e =
     (let len = int (length xs);
          k = (if e < 0 then max (len + e) 0 else min e len)
      in take (nat k) xs)"

text \<open>\<^verbatim>\<open>xs.findIndex(p)\<close>: the first index whose element satisfies \<open>p\<close>, or \<open>-1\<close>.\<close>

fun findIndex :: "('a \<Rightarrow> bool) \<Rightarrow> 'a list \<Rightarrow> int" where
  "findIndex p [] = - 1"
| "findIndex p (x # xs) =
     (if p x then 0 else (let i = findIndex p xs in if i < 0 then - 1 else i + 1))"

text \<open>\<open>limit\<close> is \<open>None\<close> for \<^verbatim>\<open>Infinity\<close>, the default.\<close>

definition reduceToLimit :: "int option \<Rightarrow> Receipt list \<Rightarrow> Receipt list" where
  "reduceToLimit limit history = (case limit of None \<Rightarrow> history | Some l \<Rightarrow> slice0 history l)"

definition unwanted :: "int \<Rightarrow> Receipt \<Rightarrow> bool" where
  "unwanted sinceBlockHeight receipt \<longleftrightarrow>
     r_blockHeight receipt > 0 \<and> r_blockHeight receipt < sinceBlockHeight"

definition removeUnwanted :: "int \<Rightarrow> Receipt list \<Rightarrow> Receipt list" where
  "removeUnwanted sinceBlockHeight history =
     (if sinceBlockHeight > 0
      then (let firstUnwantedHistoryIndex = findIndex (unwanted sinceBlockHeight) history
            in slice0 history firstUnwantedHistoryIndex)
      else history)"

text \<open>The loop that fetches the transactions, with its local \<open>blockHeaders\<close> map and the
  \<open>txs\<close> collected so far. A failing \<open>getBlockHeader\<close> ends the loop with what has been
  collected, a failing \<open>getTransaction\<close> skips the receipt (\<^verbatim>\<open>console.warn\<close> is not
  recorded).\<close>

fun fetchTransactions ::
  "lib \<Rightarrow> ElectrumWS \<Rightarrow> (string \<rightharpoonup> Receipt) \<Rightarrow> (int \<rightharpoonup> PlainBlockHeader) \<Rightarrow>
   PlainTransaction list \<Rightarrow> Receipt list \<Rightarrow> PlainTransaction list" where
  "fetchTransactions L sock knownTxs blockHeaders txs [] = txs"
| "fetchTransactions L sock knownTxs blockHeaders txs (receipt # history) =
     (if (case knownTxs (r_transactionHash receipt) of
            None \<Rightarrow> False
          | Some knownTx \<Rightarrow> r_blockHeight knownTx = max (r_blockHeight receipt) 0)
      then fetchTransactions L sock knownTxs blockHeaders txs history
      else
        (case (case blockHeaders (r_blockHeight receipt) of
                 Some b \<Rightarrow> Inr (Some b, blockHeaders)
               | None \<Rightarrow>
                   if r_blockHeight receipt > 0
                   then await (getBlockHeader L sock (r_blockHeight receipt)) (\<lambda>b.
                          Inr (Some b, blockHeaders(r_blockHeight receipt \<mapsto> b)))
                   else Inr (None, blockHeaders)) of
           Inl e \<Rightarrow> txs
         | Inr (blockHeader, blockHeaders') \<Rightarrow>
             (case getTransaction L sock (r_transactionHash receipt) (map_option Inr blockHeader) of
                Inl e \<Rightarrow> fetchTransactions L sock knownTxs blockHeaders' txs history
              | Inr tx \<Rightarrow> fetchTransactions L sock knownTxs blockHeaders' (txs @ [tx]) history)))"

definition getHistory ::
  "lib \<Rightarrow> ElectrumWS \<Rightarrow> string \<Rightarrow> int \<Rightarrow> Receipt list \<Rightarrow> int option \<Rightarrow>
   error + PlainTransaction list" where
  "getHistory L sock address sinceBlockHeight knownReceipts limit =
     (let knownTxs = foldl (\<lambda>m receipt. m(r_transactionHash receipt \<mapsto> receipt)) Map.empty knownReceipts
      in await (getReceipts L sock address False) (\<lambda>history.
           Inr (fetchTransactions L sock knownTxs Map.empty []
                  (removeUnwanted sinceBlockHeight (reduceToLimit limit (sortHistory history))))))"

section \<open>Agent.ts\<close>

definition HANDSHAKE_TIMEOUT :: nat where
  "HANDSHAKE_TIMEOUT = 1000 * 4"

definition PING_TIMEOUT :: nat where
  "PING_TIMEOUT = 1000 * 10"

definition CONNECTIVITY_CHECK_INTERVAL :: nat where
  "CONNECTIVITY_CHECK_INTERVAL = 1000 * 60"

datatype Event =
    BLOCK PlainBlockHeader
  | TRANSACTION_ADDED PlainTransaction
  | TRANSACTION_MINED PlainTransaction PlainBlockHeader
  | SYNCING
  | SYNCED
  | CLOSE string

text \<open>What the logger receives.\<close>

datatype log =
    Debug string string
  | Warn string PlainBlockHeader
  | LogError error

text \<open>The methods that Agent.ts invokes on \<^verbatim>\<open>this.connection\<close>; every request to the peer
  goes through one of them.\<close>

datatype call =
    GetBalance string
  | GetReceipts string
  | GetTransaction string "PlainBlockHeader option"
  | GetBlockHeader int
  | EstimateFee int
  | GetFeeHistogram
  | GetRelayFee
  | BroadcastTransaction string
  | SubscribeReceipts string
  | GetPeers
  | ProofTransaction string PlainBlockHeader
  | Ping
  | CloseConnection string

text \<open>
  The connection object. Agent.ts calls \<open>estimateFee\<close>, \<open>getRelayFee\<close> and
  \<open>proofTransaction\<close> on it, which the ElectrumApi.ts read here does not define: their
  outcomes are fields of the record, and nothing is assumed about them. The other methods
  are the functions of the previous section, on \<open>socket\<close>.
\<close>

record ElectrumApi =
  network :: "Network option"
  socket :: ElectrumWS
  estimateFee :: "int \<Rightarrow> error + real"
  getRelayFee :: "error + real"
  proofTransaction :: "string \<Rightarrow> PlainBlockHeader \<Rightarrow> error + bool"

text \<open>
  A \<open>txCheck\<close> promise of \<open>onReceipts\<close> that has been created and has not settled yet:
  how it is going to settle, the header it was created with, and whether the callback that
  puts the transaction into TransactionStore is attached to it.
\<close>

record Check =
  outcome :: "error + PlainTransaction"
  mined :: "PlainBlockHeader option"
  stores :: bool

text \<open>
  The fields of the Agent, then the two process-wide stores of Stores.ts (maps with
  \<open>get\<close> and \<open>set\<close>), then what the Agent does to its surroundings: the events fired
  through \<open>Observable.fire\<close>, the logger's lines and the calls on the connection, each oldest
  first, the timers that \<^verbatim>\<open>window.setInterval\<close> has running (identifier to period in
  milliseconds; \<open>nextTimerId\<close> is the identifier that the next \<open>setInterval\<close> returns),
  and the \<open>txCheck\<close> promises that are pending.
\<close>

record Agent =
  connection :: "ElectrumApi option"
  handshaking :: bool
  syncing :: bool
  synced :: bool
  knownReceipts :: "string \<rightharpoonup> (string \<rightharpoonup> Receipt)"
  pingInterval :: int
  BlockStore :: "int \<rightharpoonup> PlainBlockHeader"
  TransactionStore :: "string \<rightharpoonup> PlainTransaction"
  fired :: "Event list"
  logged :: "log list"
  calls :: "call list"
  intervals :: "int \<rightharpoonup> nat"
  nextTimerId :: int
  pending :: "Check list"

definition notSynced :: error where
  "notSynced = Error ''Agent not synced''"

definition nullConnection :: error where
  "nullConnection = TypeError ''this.connection is null''"

text \<open>\<^verbatim>\<open>this.connection!.m(args)\<close>: a \<open>TypeError\<close> when the connection is \<^verbatim>\<open>null\<close>, else the
  outcome of the method, with the call recorded.\<close>

definition onConnection ::
  "call \<Rightarrow> (ElectrumApi \<Rightarrow> error + 'a) \<Rightarrow> Agent \<Rightarrow> (error + 'a) \<times> Agent" where
  "onConnection cl m s =
     (case connection s of
        None \<Rightarrow> (Inl nullConnection, s)
      | Some c \<Rightarrow> (m c, s\<lparr> calls := calls s @ [cl] \<rparr>))"

subsection \<open>The public operations\<close>

definition Agent_getBalance :: "lib \<Rightarrow> string \<Rightarrow> Agent \<Rightarrow> (error + Balance) \<times> Agent" where
  "Agent_getBalance L address s =
     (if \<not> synced s then (Inl notSynced, s)
      else onConnection (GetBalance address) (\<lambda>c. getBalance L (socket c) address) s)"

definition Agent_getTransactionReceipts ::
  "lib \<Rightarrow> string \<Rightarrow> Agent \<Rightarrow> (error + Receipt list) \<times> Agent" where
  "Agent_getTransactionReceipts L address s =
     (if \<not> synced s then (Inl notSynced, s)
      else onConnection (GetReceipts address) (\<lambda>c. getReceipts L (socket c) address False) s)"

definition Agent_getTransaction ::
  "lib \<Rightarrow> string \<Rightarrow> PlainBlockHeader option \<Rightarrow> Agent \<Rightarrow> (error + PlainTransaction) \<times> Agent" where
  "Agent_getTransaction L hash block s =
     (if \<not> synced s then (Inl notSynced, s)
      else onConnection (GetTransaction hash block)
             (\<lambda>c. getTransaction L (socket c) hash (map_option Inr block)) s)"

definition Agent_getBlockHeader ::
  "lib \<Rightarrow> int \<Rightarrow> Agent \<Rightarrow> (error + PlainBlockHeader) \<times> Agent" where
  "Agent_getBlockHeader L h s =
     (if \<not> synced s then (Inl notSynced, s)
      else onConnection (GetBlockHeader h) (\<lambda>c. getBlockHeader L (socket c) h) s)"

text \<open>\<open>estimateFees\<close> has no check of \<open>synced\<close>. With a \<^verbatim>\<open>null\<close> connection the first
  \<^verbatim>\<open>this.connection!.estimateFee\<close> throws inside \<open>map\<close>, before any \<open>catch\<close> is attached.\<close>

definition Agent_estimateFees :: "int list \<Rightarrow> Agent \<Rightarrow> (error + real list) \<times> Agent" where
  "Agent_estimateFees targetBlocks s =
     (case connection s of
        None \<Rightarrow> (if targetBlocks = [] then Inr [] else Inl nullConnection, s)
      | Some c \<Rightarrow>
          (Inr (map (\<lambda>target. case estimateFee c target of Inl e \<Rightarrow> - 1 | Inr v \<Rightarrow> v) targetBlocks),
           s\<lparr> calls := calls s @ map EstimateFee targetBlocks \<rparr>))"

definition Agent_getFeeHistogram :: "Agent \<Rightarrow> (error + (int \<times> int) list) \<times> Agent" where
  "Agent_getFeeHistogram s =
     (if \<not> synced s then (Inl notSynced, s)
      else onConnection GetFeeHistogram (\<lambda>c. getFeeHistogram (socket c)) s)"

definition Agent_getMinimumRelayFee :: "Agent \<Rightarrow> (error + real) \<times> Agent" where
  "Agent_getMinimumRelayFee s =
     (if \<not> synced s then (Inl notSynced, s)
      else onConnection GetRelayFee (\<lambda>c. getRelayFee c) s)"

definition Agent_broadcastTransaction ::
  "lib \<Rightarrow> string \<Rightarrow> Agent \<Rightarrow> (error + PlainTransaction) \<times> Agent" where
  "Agent_broadcastTransaction L rawTx s =
     (if \<not> synced s then (Inl notSynced, s)
      else onConnection (BroadcastTransaction rawTx)
             (\<lambda>c. broadcastTransaction L (socket c) rawTx) s)"

fun subscribeLoop :: "lib \<Rightarrow> string list \<Rightarrow> Agent \<Rightarrow> (error + unit) \<times> Agent" where
  "subscribeLoop L [] s = (Inr (), s)"
| "subscribeLoop L (address # addresses) s =
     (case onConnection (SubscribeReceipts address)
             (\<lambda>c. subscribeReceipts L (socket c) address) s of
        (Inl e, s') \<Rightarrow> (Inl e, s')
      | (Inr _, s') \<Rightarrow> subscribeLoop L addresses s')"

text \<open>\<open>subscribe(addresses: string | string[])\<close>.\<close>

definition Agent_subscribe :: "lib \<Rightarrow> string + string list \<Rightarrow> Agent \<Rightarrow> (error + unit) \<times> Agent" where
  "Agent_subscribe L addresses s =
     (if \<not> synced s then (Inl notSynced, s)
      else subscribeLoop L (case addresses of Inl a \<Rightarrow> [a] | Inr as \<Rightarrow> as) s)"

definition Agent_getPeers :: "lib \<Rightarrow> Agent \<Rightarrow> (error + Peer list) \<times> Agent" where
  "Agent_getPeers L s =
     (if \<not> synced s then (Inl notSynced, s)
      else onConnection GetPeers (\<lambda>c. getPeers L (network c) (socket c)) s)"

definition Agent_close :: "string \<Rightarrow> Agent \<Rightarrow> Agent" where
  "Agent_close reason s =
     (let s1 = s\<lparr> logged := logged s @ [Debug ''Agent: Closed:'' reason] \<rparr>;
          s2 = (case connection s1 of
                  None \<Rightarrow> s1
                | Some c \<Rightarrow> s1\<lparr> calls := calls s1 @ [CloseConnection reason] \<rparr>);
          s3 = s2\<lparr> connection := None, syncing := False, synced := False \<rparr>;
          s4 = s3\<lparr> fired := fired s3 @ [CLOSE reason] \<rparr>
      in s4\<lparr> intervals := (intervals s4)(pingInterval s4 := None) \<rparr>)"

subsection \<open>The ping\<close>

text \<open>
  \<open>ping(failedTries)\<close> arms a timer of \<open>PING_TIMEOUT\<close> milliseconds and awaits
  \<^verbatim>\<open>this.connection!.ping()\<close>; the answer clears the timer when it comes first. \<open>answer k\<close>
  is the time in milliseconds after which the peer answers the ping sent with
  \<open>failedTries = k\<close>, and \<open>None\<close> when that ping is rejected or never answered (the
  \<open>catch\<close> ignores a rejection and leaves the timer armed, as a \<^verbatim>\<open>null\<close> connection does).
  When the timer fires it closes the Agent if \<open>failedTries > 1\<close> and pings again with
  \<open>failedTries + 1\<close> otherwise.
\<close>

function ping :: "nat \<Rightarrow> (nat \<Rightarrow> nat option) \<Rightarrow> Agent \<Rightarrow> Agent" where
  "ping failedTries answer s =
     (let s' = (case connection s of None \<Rightarrow> s | Some c \<Rightarrow> s\<lparr> calls := calls s @ [Ping] \<rparr>);
          cleared = (case connection s of
                       None \<Rightarrow> False
                     | Some c \<Rightarrow> (case answer failedTries of
                                    None \<Rightarrow> False
                                  | Some d \<Rightarrow> d < PING_TIMEOUT))
      in if cleared then s'
         else if failedTries > 1 then Agent_close ''Ping timeout'' s'
         else ping (failedTries + 1) answer s')"
  by pat_completeness auto
termination
  by (relation "measure (\<lambda>(failedTries, answer, s). 2 - failedTries)") auto

declare ping.simps [simp del]

subsection \<open>onBlock\<close>

text \<open>
  The condition \<^verbatim>\<open>(!prevBlock && block.blockHeight === 0) || prevBlock!.blockHash === block.prevHash\<close>
  reads \<open>blockHash\<close> of \<^verbatim>\<open>undefined\<close> when there is no predecessor and the height is not 0
  (then it is negative, a positive height has fetched one): a \<open>TypeError\<close>. The transition
  out of \<open>syncing\<close> follows the \<open>if\<close>/\<open>else\<close>, outside both branches.
\<close>

definition onBlock :: "lib \<Rightarrow> PlainBlockHeader \<Rightarrow> Agent \<Rightarrow> (error + unit) \<times> Agent" where
  "onBlock L block s =
     (let prevBlock = BlockStore s (blockHeight block - 1) in
      case (if prevBlock = None \<and> blockHeight block > 0
            then (case onConnection (GetBlockHeader (blockHeight block - 1))
                         (\<lambda>c. getBlockHeader L (socket c) (blockHeight block - 1)) s of
                    (Inl e, s') \<Rightarrow> (Inl e, s')
                  | (Inr p, s') \<Rightarrow>
                      (Inr (Some p), s'\<lparr> BlockStore := (BlockStore s')(blockHeight p \<mapsto> p) \<rparr>))
            else (Inr prevBlock, s)) of
        (Inl e, s1) \<Rightarrow> (Inl e, s1)
      | (Inr prevBlock, s1) \<Rightarrow>
          (case (case prevBlock of
                   None \<Rightarrow> if blockHeight block = 0 then Inr True
                           else Inl (TypeError ''prevBlock is undefined'')
                 | Some p \<Rightarrow> Inr (Some (blockHash p) = prevHash block)) of
             Inl e \<Rightarrow> (Inl e, s1)
           | Inr consecutive \<Rightarrow>
               (let s2 = (if consecutive
                          then s1\<lparr> BlockStore := (BlockStore s1)(blockHeight block \<mapsto> block),
                                   fired := fired s1 @ [BLOCK block] \<rparr>
                          else s1\<lparr> logged := logged s1 @
                                     [Warn ''Agent: Received non-consecutive block:'' block] \<rparr>)
                in (Inr (),
                    if syncing s2
                    then s2\<lparr> syncing := False,
                             synced := True,
                             fired := fired s2 @ [SYNCED],
                             pingInterval := nextTimerId s2,
                             intervals := (intervals s2)(nextTimerId s2 \<mapsto> CONNECTIVITY_CHECK_INTERVAL),
                             nextTimerId := nextTimerId s2 + 1 \<rparr>
                    else s2))))"

subsection \<open>onReceipts\<close>

text \<open>\<^verbatim>\<open>new Map(receipts.map((receipt) => [receipt.transactionHash, receipt]))\<close>: a later
  entry replaces an earlier one with the same key.\<close>

definition receiptsByHash :: "Receipt list \<Rightarrow> (string \<rightharpoonup> Receipt)" where
  "receiptsByHash receipts =
     foldl (\<lambda>m receipt. m(r_transactionHash receipt \<mapsto> receipt)) Map.empty receipts"

definition announce :: "error + PlainTransaction \<Rightarrow> PlainBlockHeader option \<Rightarrow> Agent \<Rightarrow> Agent" where
  "announce settled block s =
     (case settled of
        Inr tx \<Rightarrow> s\<lparr> fired := fired s @
                     [case block of Some b \<Rightarrow> TRANSACTION_MINED tx b | None \<Rightarrow> TRANSACTION_ADDED tx] \<rparr>
      | Inl e \<Rightarrow> s\<lparr> logged := logged s @ [LogError e] \<rparr>)"

text \<open>
  The pending promise at position \<open>k\<close> settles: its callbacks run in the order in which
  \<open>onReceipts\<close> attached them, first the one that stores a fetched transaction, then the
  one that fires the event or logs the error.
\<close>

definition settle :: "nat \<Rightarrow> Agent \<Rightarrow> Agent" where
  "settle k s =
     (if k < length (pending s)
      then (let p = pending s ! k;
                s1 = s\<lparr> pending := take k (pending s) @ drop (Suc k) (pending s) \<rparr>;
                s2 = (case outcome p of
                        Inl e \<Rightarrow> s1
                      | Inr tx \<Rightarrow>
                          if stores p
                          then s1\<lparr> TransactionStore := (TransactionStore s1)(transactionHash tx \<mapsto> tx) \<rparr>
                          else s1)
            in announce (outcome p) (mined p) s2)
      else s)"

definition settleAll :: "nat list \<Rightarrow> Agent \<Rightarrow> Agent" where
  "settleAll ks s = foldl (\<lambda>s k. settle k s) s ks"

text \<open>
  The header of a confirmed receipt: from BlockStore, or fetched through the Agent's own
  \<open>getBlockHeader\<close> and stored. The fetch is the only \<open>await\<close> of the loop. \<open>during\<close>
  lists, for the awaits still to come, the pending promises (by position, one after the
  other) that settle while the loop waits; an await takes the first entry.
\<close>

definition receiptBlock ::
  "lib \<Rightarrow> Receipt \<Rightarrow> nat list list \<Rightarrow> Agent \<Rightarrow>
   (error + PlainBlockHeader option) \<times> nat list list \<times> Agent" where
  "receiptBlock L receipt during s =
     (if r_blockHeight receipt > 0
      then (case BlockStore s (r_blockHeight receipt) of
              Some b \<Rightarrow> (Inr (Some b), during, s)
            | None \<Rightarrow>
                (case Agent_getBlockHeader L (r_blockHeight receipt) s of
                   (Inl e, s') \<Rightarrow>
                     (Inl e, tl during, settleAll (case during of [] \<Rightarrow> [] | ks # _ \<Rightarrow> ks) s')
                 | (Inr b, s') \<Rightarrow>
                     (let s'' = settleAll (case during of [] \<Rightarrow> [] | ks # _ \<Rightarrow> ks) s'
                      in (Inr (Some b), tl during,
                          s''\<lparr> BlockStore := (BlockStore s'')(blockHeight b \<mapsto> b) \<rparr>))))
      else (Inr None, during, s))"

text \<open>
  The promise \<open>txCheck\<close> is created and left pending; \<open>onReceipts\<close> does not await it.
  The error is the exception of reading a method of a \<^verbatim>\<open>null\<close> connection, which ends
  \<open>onReceipts\<close>. TransactionStore is read as it is when the receipt is taken.
\<close>

definition txCheck ::
  "lib \<Rightarrow> Receipt \<Rightarrow> PlainBlockHeader option \<Rightarrow> Agent \<Rightarrow> (error + unit) \<times> Agent" where
  "txCheck L receipt block s =
     (case TransactionStore s (r_transactionHash receipt) of
        None \<Rightarrow>
          (case connection s of
             None \<Rightarrow> (Inl nullConnection, s)
           | Some c \<Rightarrow>
               (Inr (),
                s\<lparr> calls := calls s @ [GetTransaction (r_transactionHash receipt) block],
                   pending := pending s @
                     [\<lparr> outcome = getTransaction L (socket c) (r_transactionHash receipt)
                                    (map_option Inr block),
                        mined = block,
                        stores = True \<rparr>] \<rparr>))
      | Some storedTransaction \<Rightarrow>
          (case block of
             None \<Rightarrow>
               (Inr (),
                s\<lparr> pending := pending s @
                     [\<lparr> outcome = Inr storedTransaction, mined = None, stores = False \<rparr>] \<rparr>)
           | Some b \<Rightarrow>
               (case connection s of
                  None \<Rightarrow> (Inl nullConnection, s)
                | Some c \<Rightarrow>
                    (Inr (),
                     s\<lparr> calls := calls s @
                          [ProofTransaction (transactionHash storedTransaction) b],
                        pending := pending s @
                          [\<lparr> outcome = await (proofTransaction c (transactionHash storedTransaction) b)
                                         (\<lambda>_. Inr storedTransaction),
                             mined = Some b,
                             stores = False \<rparr>] \<rparr>))))"

text \<open>The loop over the receipts of a later notification; \<open>known\<close> is the baseline of the
  address.\<close>

fun receiptsLoop ::
  "lib \<Rightarrow> (string \<rightharpoonup> Receipt) \<Rightarrow> nat list list \<Rightarrow> Receipt list \<Rightarrow> Agent \<Rightarrow>
   (error + unit) \<times> Agent" where
  "receiptsLoop L known during [] s = (Inr (), s)"
| "receiptsLoop L known during (receipt # receipts) s =
     (if (case known (r_transactionHash receipt) of
            None \<Rightarrow> False
          | Some knownReceipt \<Rightarrow> r_blockHeight knownReceipt = r_blockHeight receipt)
      then receiptsLoop L known during receipts s
      else (case receiptBlock L receipt during s of
              (Inl e, during', s1) \<Rightarrow> (Inl e, s1)
            | (Inr block, during', s1) \<Rightarrow>
                (case txCheck L receipt block s1 of
                   (Inl e, s2) \<Rightarrow> (Inl e, s2)
                 | (Inr u, s2) \<Rightarrow> receiptsLoop L known during' receipts s2)))"

definition onReceipts ::
  "lib \<Rightarrow> string \<Rightarrow> Receipt list \<Rightarrow> nat list list \<Rightarrow> Agent \<Rightarrow> (error + unit) \<times> Agent" where
  "onReceipts L address receipts during s =
     (case knownReceipts s address of
        None \<Rightarrow> (Inr (), s\<lparr> knownReceipts := (knownReceipts s)(address \<mapsto> receiptsByHash receipts) \<rparr>)
      | Some known \<Rightarrow> receiptsLoop L known during receipts s)"

subsection \<open>The promise of sync\<close>

text \<open>
  \<open>sync\<close> sets \<open>syncing\<close>, fires \<open>SYNCING\<close>, subscribes to the headers and returns a
  promise (lines 143 to 156): the listener registered with \<^verbatim>\<open>once(Event.BLOCK, ...)\<close>
  resolves it, and the timer of \<open>HANDSHAKE_TIMEOUT\<close> milliseconds rejects it with
  "Block timeout". \<open>evs\<close> are the events fired from \<open>SYNCING\<close> to the end of that time. The
  value it resolves with (\<^verbatim>\<open>this.synced\<close> as the listener reads it) is left out, Observable
  not being among the sources.
\<close>

definition syncPromise :: "Event list \<Rightarrow> error + unit" where
  "syncPromise evs =
     (if list_ex (\<lambda>e. case e of BLOCK b \<Rightarrow> True | _ \<Rightarrow> False) evs
      then Inr ()
      else Inl (Error ''Block timeout''))"

subsection \<open>Runs of the Agent\<close>

text \<open>What reaches a synchronising or synchronised Agent from outside: a header
  notification, a receipts notification for an address (with what settles during its
  awaits), the settling of a pending promise, a call of \<open>close\<close>, and a tick of the ping
  timer while it is running (with the peer's answering times).\<close>

datatype input =
    Header PlainBlockHeader
  | Receipts string "Receipt list" "nat list list"
  | Settle nat
  | Close string
  | Tick "nat \<Rightarrow> nat option"

fun step :: "lib \<Rightarrow> Agent \<Rightarrow> input \<Rightarrow> Agent" where
  "step L s (Header block) = snd (onBlock L block s)"
| "step L s (Receipts address receipts during) = snd (onReceipts L address receipts during s)"
| "step L s (Settle k) = settle k s"
| "step L s (Close reason) = Agent_close reason s"
| "step L s (Tick answer) = (if intervals s (pingInterval s) = None then s else ping 0 answer s)"

definition run :: "lib \<Rightarrow> Agent \<Rightarrow> input list \<Rightarrow> Agent" where
  "run L s xs = foldl (step L) s xs"

subsection \<open>The chain of stored headers\<close>


definition accepts :: "lib \<Rightarrow> Agent \<Rightarrow> PlainBlockHeader \<Rightarrow> bool" where
  "accepts L s block =
     (take 1 (drop (length (fired s)) (fired (snd (onBlock L block s)))) = [BLOCK block])"

section \<open>The Merkle fold as specified\<close>

text \<open>
  The specification's folding algorithm, in its own words: \<open>node\<close> starts as the
  byte-reversed transaction hash and \<open>i\<close> as \<open>pos\<close>; for each \<open>pair_hash\<close> in order,
  \<open>pair = reverse_bytes(hex_decode(pair_hash))\<close>, \<open>node = SHA-256d(node || pair)\<close> if
  \<open>i % 2 == 0\<close> and \<open>SHA-256d(pair || node)\<close> otherwise, and \<open>i = i >> 1\<close>; the root is
  \<open>hex(reverse_bytes(node))\<close>.
\<close>

fun spec_fold ::
  "(byte list \<Rightarrow> byte list) \<Rightarrow> (string \<Rightarrow> byte list) \<Rightarrow> byte list \<Rightarrow> int \<Rightarrow> string list \<Rightarrow> byte list" where
  "spec_fold sha256d hex_decode node i [] = node"
| "spec_fold sha256d hex_decode node i (pair_hash # rest) =
     (let pair = rev (hex_decode pair_hash)
      in spec_fold sha256d hex_decode
           (if i mod 2 = 0 then sha256d (node @ pair) else sha256d (pair @ node))
           (drop_bit 1 i) rest)"

definition spec_merkle_root ::
  "(byte list \<Rightarrow> byte list) \<Rightarrow> (string \<Rightarrow> byte list) \<Rightarrow> (byte list \<Rightarrow> string) \<Rightarrow>
   string \<Rightarrow> int \<Rightarrow> string list \<Rightarrow> string" where
  "spec_merkle_root sha256d hex_decode hex txhash p pair_hashes =
     hex (rev (spec_fold sha256d hex_decode (rev (hex_decode txhash)) p pair_hashes))"

section \<open>A small peer\<close>

text \<open>
  Concrete values on which the theorems below are instantiated: a codec of one byte per
  character, a stand-in for the hash function, a transaction \<open>b1\<close> that the peer places in
  block 170 at position 1 with the single pair hash \<open>f4\<close>, and the header of that block.
\<close>

definition toyByte :: "char \<Rightarrow> byte" where
  "toyByte c = (if c = CHR ''b'' then 11 else if c = CHR ''1'' then 1
                else if c = CHR ''f'' then 15 else if c = CHR ''4'' then 4 else 0)"

definition toyChar :: "byte \<Rightarrow> char" where
  "toyChar b = (if b = 11 then CHR ''b'' else if b = 1 then CHR ''1''
                else if b = 15 then CHR ''f'' else if b = 4 then CHR ''4'' else CHR ''0'')"

definition toyTransaction :: Transaction where
  "toyTransaction =
     \<lparr> getId = ''b1'',
       ins = [\<lparr> txin_script = [1], txin_hash = [4, 15], txin_index = 0,
                txin_sequence = 4294967295, txin_witness = [] \<rparr>],
       outs = [\<lparr> txout_script = [1, 1], txout_value = 5000 \<rparr>],
       btx_version = 1, virtualSize = 100, btx_isCoinbase = False, btx_weight = 400 \<rparr>"

definition toyBlock :: Block where
  "toyBlock =
     \<lparr> blk_getId = ''bb'', blk_timestamp = 1231731025, blk_bits = 486604799, blk_nonce = 7,
       blk_version = 1, blk_weight = 860,
       blk_prevHash = Some [15, 15], blk_merkleRoot = Some [4, 1, 4] \<rparr>"

definition toyLib :: lib where
  "toyLib =
     \<lparr> hexToBytes = map toyByte,
       bytesToHex = map toyChar,
       sha256 = (\<lambda>bs. take 2 (rev bs) @ [4]),
       Transaction_fromHex = (\<lambda>s. if s = ''rawb1'' then Inr toyTransaction else Inl (Error ''bad transaction'')),
       Block_fromHex = (\<lambda>s. if s = ''header170'' then Inr toyBlock else Inl (Error ''bad header'')),
       fromOutputScript = (\<lambda>script. Inr ''addr''),
       toOutputScript = (\<lambda>addr. if addr = ''addr'' then Inr [1, 1] else Inl (Error ''bad address'')),
       deriveAddressFromInput = (\<lambda>input. Inr None),
       parseInt = (\<lambda>s. None) \<rparr>"

definition toyHistory :: "HistoryEntry list" where
  "toyHistory =
     [\<lparr> height = 170, tx_hash = ''b1'', fee = None \<rparr>,
      \<lparr> height = 0, tx_hash = ''f4'', fee = Some 0 \<rparr>,
      \<lparr> height = - 1, tx_hash = ''4f'', fee = Some 226 \<rparr>]"

definition toySocket :: ElectrumWS where
  "toySocket =
     \<lparr> scripthash_get_balance = (\<lambda>sh. Inr \<lparr> confirmed = 5000, unconfirmed = 0 \<rparr>),
       scripthash_get_history = (\<lambda>sh. Inr toyHistory),
       transaction_get_merkle = (\<lambda>hash h. if hash = ''b1'' \<and> h = 170
                                  then Inr \<lparr> block_height = 170, merkle = [''f4''], pos = 1 \<rparr>
                                  else Inl (Error ''no such transaction in block'')),
       transaction_get = (\<lambda>hash. if hash = ''b1'' then Inr ''rawb1'' else Inl (Error ''unknown transaction'')),
       block_header = (\<lambda>h. if h = 170 then Inr ''header170'' else Inl (Error ''unknown height'')),
       transaction_broadcast = (\<lambda>raw. Inr ''b1''),
       mempool_get_fee_histogram = Inr [],
       server_peers_subscribe = Inr [] \<rparr>"

definition toyHeader :: PlainBlockHeader where
  "toyHeader =
     \<lparr> blockHash = ''bb'', blockHeight = 170, timestamp = 1231731025, bits = 486604799,
       nonce = 7, version = 1, weight = 860, prevHash = Some ''ff'', merkleRoot = Some ''414'' \<rparr>"

definition toyPlain :: PlainTransaction where
  "toyPlain =
     \<lparr> transactionHash = ''b1'',
       inputs = [\<lparr> in_script = ''1'', in_transactionHash = ''f4'', in_address = None,
                   in_witness = [], in_index = 0, in_outputIndex = 0, in_sequence = 4294967295 \<rparr>],
       outputs = [\<lparr> out_script = ''11'', out_address = ''addr'', out_value = 5000, out_index = 0 \<rparr>],
       tx_version = 1, vsize = 100, isCoinbase = False, tx_weight = 400,
       tx_blockHash = None, tx_blockHeight = None, tx_timestamp = None, replaceByFee = False \<rparr>"

text \<open>An Agent connected to that peer, as \<open>sync\<close> leaves it after the handshake:
  \<open>syncing\<close> is set and \<open>SYNCING\<close> has been fired.\<close>

definition toyApi :: ElectrumApi where
  "toyApi =
     \<lparr> network = None,
       socket = toySocket,
       estimateFee = (\<lambda>target. if target = 1 then Inr 12 else Inl (Error ''no estimate'')),
       getRelayFee = Inr 1,
       proofTransaction = (\<lambda>hash b. Inr True) \<rparr>"

definition toyAgent :: Agent where
  "toyAgent =
     \<lparr> connection = Some toyApi,
       handshaking = False,
       syncing = True,
       synced = False,
       knownReceipts = Map.empty,
       pingInterval = - 1,
       BlockStore = Map.empty,
       TransactionStore = Map.empty,
       fired = [SYNCING],
       logged = [],
       calls = [],
       intervals = Map.empty,
       nextTimerId = 1,
       pending = [] \<rparr>"

text \<open>The same Agent once synchronised, with its ping timer running.\<close>

definition toySynced :: Agent where
  "toySynced =
     toyAgent\<lparr> syncing := False, synced := True, fired := [SYNCING, SYNCED],
               pingInterval := 1, intervals := [1 \<mapsto> CONNECTIVITY_CHECK_INTERVAL],
               nextTimerId := 2 \<rparr>"

text \<open>The receipt of \<open>b1\<close> while it is unconfirmed, and the synchronised Agent after a
  first notification for the address \<open>addr\<close> that consists of this receipt.\<close>

definition toyReceipt :: Receipt where
  "toyReceipt = \<lparr> r_blockHeight = 0, r_transactionHash = ''b1'', r_fee = None \<rparr>"

definition toyKnown :: Agent where
  "toyKnown = toySynced\<lparr> knownReceipts := [''addr'' \<mapsto> receiptsByHash [toyReceipt]] \<rparr>"

text \<open>A header for height 171 on top of \<open>toyHeader\<close>, one for the same height that names
  another predecessor, and a genesis header.\<close>

definition toyNext :: PlainBlockHeader where
  "toyNext =
     \<lparr> blockHash = ''1b'', blockHeight = 171, timestamp = 1231731401, bits = 486604799,
       nonce = 9, version = 1, weight = 860, prevHash = Some ''bb'', merkleRoot = Some ''1f'' \<rparr>"

definition toyFork :: PlainBlockHeader where
  "toyFork = toyNext\<lparr> blockHash := ''4b'', prevHash := Some ''f1'' \<rparr>"

text \<open>The header below \<open>toyHeader\<close>, a second header for the height of \<open>toyHeader\<close> on
  the same predecessor, and a synchronised Agent that has the first of them stored.\<close>

definition toyParent :: PlainBlockHeader where
  "toyParent =
     \<lparr> blockHash = ''ff'', blockHeight = 169, timestamp = 1231730523, bits = 486604799,
       nonce = 3, version = 1, weight = 860, prevHash = Some ''1f'', merkleRoot = Some ''f1'' \<rparr>"

definition toyRival :: PlainBlockHeader where
  "toyRival = toyHeader\<lparr> blockHash := ''4b'', nonce := 8 \<rparr>"


text \<open>The same library with an address function that knows no address for the output
  script, as bitcoinjs-lib does for a script of no standard form.\<close>

definition toyStrict :: lib where
  "toyStrict = toyLib\<lparr> fromOutputScript := (\<lambda>script. Inl (Error ''has no matching Address'')) \<rparr>"

definition toyGenesis :: PlainBlockHeader where
  "toyGenesis =
     \<lparr> blockHash = ''0f'', blockHeight = 0, timestamp = 1231006505, bits = 486604799,
       nonce = 1, version = 1, weight = 860, prevHash = None, merkleRoot = None \<rparr>"

section \<open>Properties of ElectrumApi.ts\<close>

lemma await_simps [simp]:
  "await (Inl e) k = Inl e"
  "await (Inr v) k = k v"
  by (simp_all add: await_def)

lemma await_Inr_iff: "await p k = Inr y \<longleftrightarrow> (\<exists>v. p = Inr v \<and> k v = Inr y)"
  by (cases p) simp_all

subsection \<open>The small peer, evaluated\<close>

lemma toy_getBlockHeader: "getBlockHeader toyLib toySocket 170 = Inr toyHeader"
  by (simp add: getBlockHeader_def blockHeaderToPlain_def toyLib_def toySocket_def toyBlock_def toyHeader_def toyChar_def)

lemma toy_plain: "transactionToPlain toyLib (Inl ''rawb1'') None = Inr toyPlain"
  by (simp add: transactionToPlain_def toyLib_def toyTransaction_def toyPlain_def inputToPlain_def outputToPlain_def toyChar_def)

lemma toy_root: "spec_merkle_root (sha256 toyLib \<circ> sha256 toyLib) (hexToBytes toyLib) (bytesToHex toyLib) ''b1'' 1 [''f4''] = ''414''"
  by (simp add: spec_merkle_root_def toyLib_def toyByte_def toyChar_def)

lemma toy_proof: "transaction_get_merkle toySocket ''b1'' 170 = Inr \<lparr> block_height = 170, merkle = [''f4''], pos = 1 \<rparr>"
  by (simp add: toySocket_def)

lemma toy_raw: "transaction_get toySocket ''b1'' = Inr ''rawb1''"
  by (simp add: toySocket_def)

lemma transactionToPlain_header:
  "transactionToPlain L x (Some b) = Inr tx \<longleftrightarrow>
     (\<exists>plain. transactionToPlain L x None = Inr plain \<and>
        tx = plain\<lparr> tx_blockHash := Some (blockHash b), tx_blockHeight := Some (blockHeight b),
                    tx_timestamp := Some (timestamp b) \<rparr>)"
  by (auto simp: transactionToPlain_def await_Inr_iff Let_def)

lemma transactionToPlain_None_fields:
  "transactionToPlain L x None = Inr plain \<Longrightarrow>
     tx_blockHash plain = None \<and> tx_blockHeight plain = None \<and> tx_timestamp plain = None"
  by (auto simp: transactionToPlain_def await_Inr_iff Let_def)

lemma toy_plain_header:
  "transactionToPlain toyLib (Inl ''rawb1'') (Some b) =
     Inr (toyPlain\<lparr> tx_blockHash := Some (blockHash b), tx_blockHeight := Some (blockHeight b),
                     tx_timestamp := Some (timestamp b) \<rparr>)"
  using transactionToPlain_header [of toyLib "Inl ''rawb1''" b] toy_plain by simp

subsection \<open>getReceipts\<close>

lemma toReceipt_fee: "r_fee (toReceipt e) = Some f \<longleftrightarrow> fee e = Some f \<and> f \<noteq> 0"
  by (auto simp: toReceipt_def split: option.splits)

text \<open>
  C9. For every history entry that the peer returns to \<open>getReceipts\<close>, the receipt at the
  same position has the entry's \<open>height\<close> as \<open>blockHeight\<close> and its \<open>tx_hash\<close> as
  \<open>transactionHash\<close>, and it carries a fee exactly when the entry's fee is present and
  not zero (then it is the entry's fee); a fee of exactly 0 is left out.
\<close>

theorem getReceipts_fee:
  assumes "(if isScriptHash then Inr address else addressToScriptHash L address) = Inr sh"
      and "scripthash_get_history sock sh = Inr entries"
  shows "\<exists>receipts. getReceipts L sock address isScriptHash = Inr receipts \<and>
           length receipts = length entries \<and>
           (\<forall>i < length entries.
              r_blockHeight (receipts ! i) = height (entries ! i) \<and>
              r_transactionHash (receipts ! i) = tx_hash (entries ! i) \<and>
              (r_fee (receipts ! i) \<noteq> None \<longleftrightarrow> (\<exists>f. fee (entries ! i) = Some f \<and> f \<noteq> 0)) \<and>
              (\<forall>f. r_fee (receipts ! i) = Some f \<longrightarrow> fee (entries ! i) = Some f))"
proof -
  have "getReceipts L sock address isScriptHash = Inr (map toReceipt entries)"
    using assms by (simp add: getReceipts_def)
  moreover have "r_blockHeight (toReceipt e) = height e" "r_transactionHash (toReceipt e) = tx_hash e" for e
    by (simp_all add: toReceipt_def)
  ultimately show ?thesis
    by (auto simp: toReceipt_fee)
qed

theorem getReceipts_fee_witness:
  "scripthash_get_history toySocket ''sh'' = Inr toyHistory \<and>
   (\<exists>receipts. getReceipts toyLib toySocket ''sh'' True = Inr receipts \<and>
      length receipts = 3 \<and>
      r_fee (receipts ! 0) = None \<and> r_fee (receipts ! 1) = None \<and> r_fee (receipts ! 2) = Some 226 \<and> 
      r_blockHeight (receipts ! 2) = - 1 \<and> r_transactionHash (receipts ! 2) = ''4f'')"
proof -
  have h: "scripthash_get_history toySocket ''sh'' = Inr toyHistory"
    by (simp add: toySocket_def)
  have len: "length toyHistory = 3" by (simp add: toyHistory_def)
  from getReceipts_fee [of True "''sh''" toyLib "''sh''" toySocket toyHistory, simplified, OF h]
  obtain receipts where r: "getReceipts toyLib toySocket ''sh'' True = Inr receipts"
    "length receipts = length toyHistory"
    "\<forall>i < length toyHistory.
              r_blockHeight (receipts ! i) = height (toyHistory ! i) \<and>
              r_transactionHash (receipts ! i) = tx_hash (toyHistory ! i) \<and>
              (r_fee (receipts ! i) \<noteq> None \<longleftrightarrow> (\<exists>f. fee (toyHistory ! i) = Some f \<and> f \<noteq> 0)) \<and>
              (\<forall>f. r_fee (receipts ! i) = Some f \<longrightarrow> fee (toyHistory ! i) = Some f)"
    by blast
  have "r_fee (receipts ! 0) = None" "r_fee (receipts ! 1) = None"
    using r(3)[rule_format, of 0] r(3)[rule_format, of 1] by (simp_all add: toyHistory_def)
  moreover have "r_fee (receipts ! 2) = Some 226" "r_blockHeight (receipts ! 2) = - 1" "r_transactionHash (receipts ! 2) = ''4f''"
    using r(3)[rule_format, of 2] by (auto simp add: toyHistory_def)
  ultimately show ?thesis using h r(1,2) len by auto
qed

subsection \<open>broadcastTransaction\<close>



subsection \<open>getTransaction and the Merkle proof\<close>

lemma merkleLoop_spec:
  "merkleLoop L i node ps = spec_fold (sha256 L \<circ> sha256 L) (hexToBytes L) node i ps"
  by (induction ps arbitrary: i node) (simp_all add: Let_def drop_bit_eq_div)

lemma getTransactionMerkleRoot_spec:
  "transaction_get_merkle sock hash h = Inr p \<Longrightarrow>
   getTransactionMerkleRoot L sock hash h =
     Inr (spec_merkle_root (sha256 L \<circ> sha256 L) (hexToBytes L) (bytesToHex L) hash (pos p) (merkle p))"
  by (simp add: getTransactionMerkleRoot_def spec_merkle_root_def merkleLoop_spec)

lemma getTransaction_supplied:
  assumes "heightOrBlockHeader = Some (Inr b) \<or>
             (\<exists>n. 0 < n \<and> heightOrBlockHeader = Some (Inl n) \<and> getBlockHeader L sock n = Inr b)"
  shows "getTransaction L sock hash heightOrBlockHeader =
           await (getTransactionMerkleRoot L sock hash (blockHeight b)) (\<lambda>root.
             if Some root \<noteq> merkleRoot b then Inl (invalidMerkleProof hash (blockHeight b))
             else await (transaction_get sock hash) (\<lambda>raw. transactionToPlain L (Inl raw) (Some b)))"
  using assms by (auto simp: getTransaction_def await_def split: sum.splits)

text \<open>
  C1 (as the code has it). Let a block header \<open>b\<close> be supplied to \<open>getTransaction\<close>, as
  an object or as a height \<open>n > 0\<close> that \<open>getBlockHeader\<close> resolves to \<open>b\<close>, and let the
  peer answer \<^verbatim>\<open>blockchain.transaction.get_merkle\<close> with the proof \<open>p\<close>. Then the root
  that the code computes is the one of the specified fold over \<open>p\<close>. If it differs from
  \<open>merkleRoot b\<close> the call fails with the error "Invalid merkle proof for given block
  height: hash, height". If it is equal the call goes on to fetch and decode the raw
  transaction, with the fields of \<open>b\<close> attached, and fails when that fails. So the call
  succeeds exactly when the computed root equals \<open>merkleRoot b\<close> and the peer delivers a
  raw transaction that decodes; every transaction that the call returns has passed the
  check and carries the block fields of \<open>b\<close>.
\<close>

theorem getTransaction_merkle:
  assumes supplied: "heightOrBlockHeader = Some (Inr b) \<or>
             (\<exists>n. 0 < n \<and> heightOrBlockHeader = Some (Inl n) \<and> getBlockHeader L sock n = Inr b)"
      and answer: "transaction_get_merkle sock hash (blockHeight b) = Inr p"
      and computed: "computed = spec_merkle_root (sha256 L \<circ> sha256 L) (hexToBytes L) (bytesToHex L) hash (pos p) (merkle p)"
  shows "getTransactionMerkleRoot L sock hash (blockHeight b) = Inr computed \<and>
         (merkleRoot b \<noteq> Some computed \<longrightarrow>
            getTransaction L sock hash heightOrBlockHeader =
              Inl (Error (''Invalid merkle proof for given block height: '' @ hash @ '', '' @
                          numberToString (blockHeight b)))) \<and>
         (merkleRoot b = Some computed \<longrightarrow>
            getTransaction L sock hash heightOrBlockHeader =
              await (transaction_get sock hash) (\<lambda>raw. transactionToPlain L (Inl raw) (Some b))) \<and>
         ((\<exists>tx. getTransaction L sock hash heightOrBlockHeader = Inr tx) \<longleftrightarrow>
            merkleRoot b = Some computed \<and>
            (\<exists>raw plain. transaction_get sock hash = Inr raw \<and>
                         transactionToPlain L (Inl raw) None = Inr plain)) \<and>
         (\<forall>tx. getTransaction L sock hash heightOrBlockHeader = Inr tx \<longrightarrow>
            merkleRoot b = Some computed \<and>
            tx_blockHash tx = Some (blockHash b) \<and> tx_blockHeight tx = Some (blockHeight b) \<and>
            tx_timestamp tx = Some (timestamp b))"
proof -
  have r: "getTransactionMerkleRoot L sock hash (blockHeight b) = Inr computed"
    using answer computed by (simp add: getTransactionMerkleRoot_spec)
  have g: "getTransaction L sock hash heightOrBlockHeader =
             (if Some computed \<noteq> merkleRoot b then Inl (invalidMerkleProof hash (blockHeight b))
              else await (transaction_get sock hash) (\<lambda>raw. transactionToPlain L (Inl raw) (Some b)))"
    using getTransaction_supplied [OF supplied, of hash] by (simp add: r)
  have mismatch: "merkleRoot b \<noteq> Some computed \<longrightarrow>
      getTransaction L sock hash heightOrBlockHeader =
        Inl (Error (''Invalid merkle proof for given block height: '' @ hash @ '', '' @
                    numberToString (blockHeight b)))"
    using g by (auto simp: invalidMerkleProof_def)
  have match: "merkleRoot b = Some computed \<longrightarrow>
      getTransaction L sock hash heightOrBlockHeader =
        await (transaction_get sock hash) (\<lambda>raw. transactionToPlain L (Inl raw) (Some b))"
    using g by auto
  have decoded: "(\<exists>tx. await (transaction_get sock hash) (\<lambda>raw. transactionToPlain L (Inl raw) (Some b)) = Inr tx) \<longleftrightarrow>
      (\<exists>raw plain. transaction_get sock hash = Inr raw \<and> transactionToPlain L (Inl raw) None = Inr plain)"
    unfolding await_Inr_iff transactionToPlain_header by blast
  have iff: "(\<exists>tx. getTransaction L sock hash heightOrBlockHeader = Inr tx) \<longleftrightarrow>
            merkleRoot b = Some computed \<and>
            (\<exists>raw plain. transaction_get sock hash = Inr raw \<and>
                         transactionToPlain L (Inl raw) None = Inr plain)"
  proof (cases "merkleRoot b = Some computed")
    case True
    with match have "getTransaction L sock hash heightOrBlockHeader =
        await (transaction_get sock hash) (\<lambda>raw. transactionToPlain L (Inl raw) (Some b))"
      by simp
    with True decoded show ?thesis by simp
  next
    case False
    then show ?thesis using mismatch by simp
  qed
  have fields: "merkleRoot b = Some computed \<and>
            tx_blockHash tx = Some (blockHash b) \<and> tx_blockHeight tx = Some (blockHeight b) \<and>
            tx_timestamp tx = Some (timestamp b)"
    if "getTransaction L sock hash heightOrBlockHeader = Inr tx" for tx
  proof -
    have m: "merkleRoot b = Some computed" using that mismatch by auto
    with g that have "await (transaction_get sock hash) (\<lambda>raw. transactionToPlain L (Inl raw) (Some b)) = Inr tx"
      by simp
    then obtain raw where "transactionToPlain L (Inl raw) (Some b) = Inr tx"
      unfolding await_Inr_iff by blast
    then show ?thesis using m by (auto simp: transactionToPlain_header)
  qed
  show ?thesis using r mismatch match iff fields by blast
qed

theorem getTransaction_merkle_witness:
  "getBlockHeader toyLib toySocket 170 = Inr toyHeader \<and>
   transaction_get_merkle toySocket ''b1'' 170 = Inr \<lparr> block_height = 170, merkle = [''f4''], pos = 1 \<rparr> \<and>
   getTransactionMerkleRoot toyLib toySocket ''b1'' 170 = Inr ''414'' \<and>
   merkleRoot toyHeader = Some ''414'' \<and>
   transaction_get toySocket ''b1'' = Inr ''rawb1'' \<and>
   transactionToPlain toyLib (Inl ''rawb1'') None = Inr toyPlain \<and>
   getTransaction toyLib toySocket ''b1'' (Some (Inl 170)) =
     Inr (toyPlain\<lparr> tx_blockHash := Some ''bb'', tx_blockHeight := Some 170,
                     tx_timestamp := Some 1231731025 \<rparr>) \<and>
   getTransaction toyLib toySocket ''b1'' (Some (Inr (toyHeader\<lparr> merkleRoot := Some ''444'' \<rparr>))) =
     Inl (Error ''Invalid merkle proof for given block height: b1, 170'')"
proof -
  let ?p = "\<lparr> block_height = 170, merkle = [''f4''], pos = 1 \<rparr>"
  let ?other = "toyHeader\<lparr> merkleRoot := Some ''444'' \<rparr>"
  have h: "blockHeight toyHeader = 170" "merkleRoot toyHeader = Some ''414''"
    "blockHash toyHeader = ''bb''" "timestamp toyHeader = 1231731025"
    by (simp_all add: toyHeader_def)
  have n: "numberToString 170 = ''170''"
    by code_simp
  have p: "transaction_get_merkle toySocket ''b1'' (blockHeight toyHeader) = Inr ?p"
    by (simp add: h toy_proof)
  have c: "''414'' = spec_merkle_root (sha256 toyLib \<circ> sha256 toyLib) (hexToBytes toyLib)
                       (bytesToHex toyLib) ''b1'' (pos ?p) (merkle ?p)"
    by (simp add: toy_root)
  have a: "Some (Inl 170) = Some (Inr toyHeader) \<or>
           (\<exists>n. 0 < n \<and> Some (Inl 170) = Some (Inl n) \<and> getBlockHeader toyLib toySocket n = Inr toyHeader)"
    by (simp add: toy_getBlockHeader)
  note matching = getTransaction_merkle [OF a p c]
  have root: "getTransactionMerkleRoot toyLib toySocket ''b1'' 170 = Inr ''414''"
    using matching [THEN conjunct1] by (simp add: h)
  have "getTransaction toyLib toySocket ''b1'' (Some (Inl 170)) =
          await (transaction_get toySocket ''b1'') (\<lambda>raw. transactionToPlain toyLib (Inl raw) (Some toyHeader))"
    using matching [THEN conjunct2, THEN conjunct2, THEN conjunct1] h(2) by simp
  then have accepted: "getTransaction toyLib toySocket ''b1'' (Some (Inl 170)) =
     Inr (toyPlain\<lparr> tx_blockHash := Some ''bb'', tx_blockHeight := Some 170,
                     tx_timestamp := Some 1231731025 \<rparr>)"
    by (simp add: toy_raw toy_plain_header h)
  have p': "transaction_get_merkle toySocket ''b1'' (blockHeight ?other) = Inr ?p"
    by (simp add: h toy_proof)
  have b: "Some (Inr ?other) = Some (Inr ?other) \<or>
           (\<exists>n. 0 < n \<and> Some (Inr ?other) = Some (Inl n) \<and> getBlockHeader toyLib toySocket n = Inr ?other)"
    by simp
  note mismatching = getTransaction_merkle [OF b p' c]
  have rejected: "getTransaction toyLib toySocket ''b1'' (Some (Inr ?other)) =
     Inl (Error ''Invalid merkle proof for given block height: b1, 170'')"
    using mismatching [THEN conjunct2, THEN conjunct1] by (simp add: h n)
  show ?thesis
    using root accepted rejected h(2) toy_getBlockHeader toy_proof toy_raw toy_plain by simp
qed

text \<open>The peer's proof gives the root of the header, and the call fails all the same:
  once because the decoder knows no address for the output of the transaction, once
  because the peer rejects the request for the raw transaction.\<close>

theorem getTransaction_merkle_counterexample:
  "transaction_get_merkle toySocket ''b1'' (blockHeight toyHeader) =
     Inr \<lparr> block_height = 170, merkle = [''f4''], pos = 1 \<rparr> \<and>
   merkleRoot toyHeader = Some ''414'' \<and>
   getTransactionMerkleRoot toyStrict toySocket ''b1'' (blockHeight toyHeader) = Inr ''414'' \<and>
   transaction_get toySocket ''b1'' = Inr ''rawb1'' \<and>
   getTransaction toyStrict toySocket ''b1'' (Some (Inr toyHeader)) =
     Inl (Error ''has no matching Address'') \<and>
   getTransactionMerkleRoot toyLib
     (toySocket\<lparr> transaction_get := \<lambda>hash. Inl (Error ''missing transaction'') \<rparr>)
     ''b1'' (blockHeight toyHeader) = Inr ''414'' \<and>
   getTransaction toyLib
     (toySocket\<lparr> transaction_get := \<lambda>hash. Inl (Error ''missing transaction'') \<rparr>)
     ''b1'' (Some (Inr toyHeader)) = Inl (Error ''missing transaction'')"
proof -
  let ?silent = "toySocket\<lparr> transaction_get := \<lambda>hash. Inl (Error ''missing transaction'') \<rparr>"
  have h: "blockHeight toyHeader = 170" "merkleRoot toyHeader = Some ''414''"
    by (simp_all add: toyHeader_def)
  have strict: "hexToBytes toyStrict = hexToBytes toyLib" "bytesToHex toyStrict = bytesToHex toyLib"
    "sha256 toyStrict = sha256 toyLib" "Transaction_fromHex toyStrict = Transaction_fromHex toyLib"
    "deriveAddressFromInput toyStrict = deriveAddressFromInput toyLib"
    "fromOutputScript toyStrict = (\<lambda>script. Inl (Error ''has no matching Address''))"
    by (simp_all add: toyStrict_def)
  have r1: "getTransactionMerkleRoot toyStrict toySocket ''b1'' 170 = Inr ''414''"
    using getTransactionMerkleRoot_spec [OF toy_proof, of toyStrict] toy_root
    by (simp add: strict)
  have q: "transaction_get_merkle ?silent ''b1'' 170 = Inr \<lparr> block_height = 170, merkle = [''f4''], pos = 1 \<rparr>"
    by (simp add: toy_proof)
  have r2: "getTransactionMerkleRoot toyLib ?silent ''b1'' 170 = Inr ''414''"
    using getTransactionMerkleRoot_spec [OF q, of toyLib] toy_root by simp
  have d: "transactionToPlain toyStrict (Inl ''rawb1'') (Some toyHeader) =
             Inl (Error ''has no matching Address'')"
    by (simp add: transactionToPlain_def strict inputToPlain_def outputToPlain_def
        toyLib_def toyTransaction_def)
  have g1: "getTransaction toyStrict toySocket ''b1'' (Some (Inr toyHeader)) =
     Inl (Error ''has no matching Address'')"
    by (simp add: getTransaction_def h r1 toy_raw d)
  have g2: "getTransaction toyLib ?silent ''b1'' (Some (Inr toyHeader)) = Inl (Error ''missing transaction'')"
    by (simp add: getTransaction_def h r2)
  show ?thesis
    using h r1 r2 g1 g2 toy_proof toy_raw by simp
qed

subsection \<open>getHistory\<close>

lemma findIndex_none: "(\<forall>x \<in> set xs. \<not> p x) \<Longrightarrow> findIndex p xs = - 1"
  by (induction xs) (auto simp: Let_def)

lemma findIndex_some:
  "\<exists>x \<in> set xs. p x \<Longrightarrow>
   \<exists>k < length xs. findIndex p xs = int k \<and> p (xs ! k) \<and> (\<forall>j < k. \<not> p (xs ! j))"
proof (induction xs)
  case Nil
  then show ?case by simp
next
  case (Cons x xs)
  show ?case
  proof (cases "p x")
    case True
    then show ?thesis by (intro exI [of _ 0]) simp
  next
    case False
    with Cons.prems have "\<exists>x \<in> set xs. p x" by simp
    from Cons.IH [OF this] obtain k where k: "k < length xs" "findIndex p xs = int k"
      "p (xs ! k)" "\<forall>j < k. \<not> p (xs ! j)" by blast
    have "\<forall>j < Suc k. \<not> p ((x # xs) ! j)"
      using False k(4) by (auto simp: nth_Cons split: nat.splits)
    with k False show ?thesis
      by (intro exI [of _ "Suc k"]) (simp add: Let_def)
  qed
qed

lemma slice0_minus_one: "slice0 xs (- 1) = butlast xs"
  by (cases "xs = []") (auto simp: slice0_def Let_def butlast_conv_take nat_diff_distrib')

lemma slice0_index: "k \<le> length xs \<Longrightarrow> slice0 xs (int k) = take k xs"
  by (simp add: slice0_def Let_def)

lemma slice0_take: "\<exists>k. slice0 xs e = take k xs"
  by (auto simp: slice0_def Let_def)

lemma sortHistory_sorted: "sorted (map (\<lambda>r. - heightOrMax r) (sortHistory rs))"
  by (simp add: sortHistory_def)

lemma reduceToLimit_sorted:
  "sorted (map (\<lambda>r. - heightOrMax r) (reduceToLimit limit (sortHistory rs)))"
proof (cases limit)
  case None
  then show ?thesis by (simp add: reduceToLimit_def sortHistory_sorted)
next
  case (Some l)
  obtain k where "slice0 (sortHistory rs) l = take k (sortHistory rs)"
    using slice0_take by blast
  then show ?thesis
    using Some sortHistory_sorted [of rs]
    by (simp add: reduceToLimit_def take_map [symmetric] sorted_wrt_take del: take_map)
qed

lemma sorted_last_least:
  assumes "sorted (map f xs)" "x \<in> set xs"
  shows "f x \<le> f (last xs)"
proof -
  from assms(2) obtain i where i: "i < length xs" "xs ! i = x"
    by (auto simp: in_set_conv_nth)
  then have "xs \<noteq> []" by auto
  then have l: "last xs = xs ! (length xs - 1)" by (simp add: last_conv_nth)
  have "map f xs ! i \<le> map f xs ! (length xs - 1)"
    using assms(1) i by (intro sorted_nth_mono) auto
  then show ?thesis using i l by simp
qed

text \<open>
  C10. Let \<open>getHistory\<close> be called with \<open>sinceBlockHeight > 0\<close>, and let \<open>history\<close> be the
  sorted receipt list after the cut to \<open>limit\<close>. If no receipt of \<open>history\<close> has
  \<open>0 < blockHeight < sinceBlockHeight\<close>, then \<open>findIndex\<close> returns \<open>-1\<close>, the slice drops
  the last element, and the transactions are fetched for \<open>butlast history\<close> only. If there
  is such a receipt, the list is cut at the index of the first one. The last element of
  \<open>history\<close> is one with the least sort key \<open>blockHeight || MAX_SAFE_INTEGER\<close>.
\<close>

theorem getHistory_cut:
  assumes since: "0 < sinceBlockHeight"
      and receipts: "getReceipts L sock address False = Inr receipts"
      and history: "history = reduceToLimit limit (sortHistory receipts)"
      and known: "knownTxs = foldl (\<lambda>m receipt. m(r_transactionHash receipt \<mapsto> receipt)) Map.empty knownList"
  shows "((\<forall>r \<in> set history. \<not> (0 < r_blockHeight r \<and> r_blockHeight r < sinceBlockHeight)) \<longrightarrow>
            findIndex (unwanted sinceBlockHeight) history = - 1 \<and>
            removeUnwanted sinceBlockHeight history = butlast history \<and>
            getHistory L sock address sinceBlockHeight knownList limit =
              Inr (fetchTransactions L sock knownTxs Map.empty [] (butlast history))) \<and>
         ((\<exists>r \<in> set history. 0 < r_blockHeight r \<and> r_blockHeight r < sinceBlockHeight) \<longrightarrow>
            (\<exists>k < length history.
               findIndex (unwanted sinceBlockHeight) history = int k \<and>
               (0 < r_blockHeight (history ! k) \<and> r_blockHeight (history ! k) < sinceBlockHeight) \<and>
               (\<forall>j < k. \<not> (0 < r_blockHeight (history ! j) \<and> r_blockHeight (history ! j) < sinceBlockHeight)) \<and>
               removeUnwanted sinceBlockHeight history = take k history \<and>
               getHistory L sock address sinceBlockHeight knownList limit =
                 Inr (fetchTransactions L sock knownTxs Map.empty [] (take k history)))) \<and>
         (\<forall>r \<in> set history. heightOrMax (last history) \<le> heightOrMax r)"
proof -
  have g: "getHistory L sock address sinceBlockHeight knownList limit =
             Inr (fetchTransactions L sock knownTxs Map.empty [] (removeUnwanted sinceBlockHeight history))"
    using receipts history known by (simp add: getHistory_def Let_def)
  have none: "findIndex (unwanted sinceBlockHeight) history = - 1 \<and>
              removeUnwanted sinceBlockHeight history = butlast history"
    if "\<forall>r \<in> set history. \<not> (0 < r_blockHeight r \<and> r_blockHeight r < sinceBlockHeight)"
  proof -
    have "findIndex (unwanted sinceBlockHeight) history = - 1"
      using that by (intro findIndex_none) (simp add: unwanted_def)
    then show ?thesis using since by (simp add: removeUnwanted_def slice0_minus_one)
  qed
  have some: "\<exists>k < length history.
               findIndex (unwanted sinceBlockHeight) history = int k \<and>
               (0 < r_blockHeight (history ! k) \<and> r_blockHeight (history ! k) < sinceBlockHeight) \<and>
               (\<forall>j < k. \<not> (0 < r_blockHeight (history ! j) \<and> r_blockHeight (history ! j) < sinceBlockHeight)) \<and>
               removeUnwanted sinceBlockHeight history = take k history"
    if "\<exists>r \<in> set history. 0 < r_blockHeight r \<and> r_blockHeight r < sinceBlockHeight"
  proof -
    have "\<exists>r \<in> set history. unwanted sinceBlockHeight r"
      using that by (simp add: unwanted_def)
    from findIndex_some [OF this] obtain k where k: "k < length history"
      "findIndex (unwanted sinceBlockHeight) history = int k"
      "unwanted sinceBlockHeight (history ! k)"
      "\<forall>j < k. \<not> unwanted sinceBlockHeight (history ! j)" by blast
    have "removeUnwanted sinceBlockHeight history = take k history"
      using since k(1,2) by (simp add: removeUnwanted_def slice0_index)
    with k show ?thesis unfolding unwanted_def by blast
  qed
  have least: "\<forall>r \<in> set history. heightOrMax (last history) \<le> heightOrMax r"
  proof
    fix r assume "r \<in> set history"
    then have "r \<in> set (reduceToLimit limit (sortHistory receipts))"
      using history by simp
    from sorted_last_least [OF reduceToLimit_sorted this]
    show "heightOrMax (last history) \<le> heightOrMax r"
      using history by simp
  qed
  show ?thesis
  proof (intro conjI impI)
    assume a: "\<forall>r \<in> set history. \<not> (0 < r_blockHeight r \<and> r_blockHeight r < sinceBlockHeight)"
    show "findIndex (unwanted sinceBlockHeight) history = - 1"
      using none [OF a] by simp
    show "removeUnwanted sinceBlockHeight history = butlast history"
      using none [OF a] by simp
    show "getHistory L sock address sinceBlockHeight knownList limit =
              Inr (fetchTransactions L sock knownTxs Map.empty [] (butlast history))"
      using none [OF a] g by simp
  next
    assume a: "\<exists>r \<in> set history. 0 < r_blockHeight r \<and> r_blockHeight r < sinceBlockHeight"
    from some [OF a] obtain k where k: "k < length history"
      "findIndex (unwanted sinceBlockHeight) history = int k"
      "0 < r_blockHeight (history ! k) \<and> r_blockHeight (history ! k) < sinceBlockHeight"
      "\<forall>j < k. \<not> (0 < r_blockHeight (history ! j) \<and> r_blockHeight (history ! j) < sinceBlockHeight)"
      "removeUnwanted sinceBlockHeight history = take k history" by blast
    have "getHistory L sock address sinceBlockHeight knownList limit =
                 Inr (fetchTransactions L sock knownTxs Map.empty [] (take k history))"
      using g k(5) by simp
    with k show "\<exists>k < length history.
               findIndex (unwanted sinceBlockHeight) history = int k \<and>
               (0 < r_blockHeight (history ! k) \<and> r_blockHeight (history ! k) < sinceBlockHeight) \<and>
               (\<forall>j < k. \<not> (0 < r_blockHeight (history ! j) \<and> r_blockHeight (history ! j) < sinceBlockHeight)) \<and>
               removeUnwanted sinceBlockHeight history = take k history \<and>
               getHistory L sock address sinceBlockHeight knownList limit =
                 Inr (fetchTransactions L sock knownTxs Map.empty [] (take k history))"
      by blast
  next
    show "\<forall>r \<in> set history. heightOrMax (last history) \<le> heightOrMax r"
      by (rule least)
  qed
qed

section \<open>Properties of Agent.ts\<close>

lemma onConnection_simps:
  "connection s = None \<Longrightarrow> onConnection cl m s = (Inl nullConnection, s)"
  "connection s = Some c \<Longrightarrow> onConnection cl m s = (m c, s\<lparr> calls := calls s @ [cl] \<rparr>)"
  by (simp_all add: onConnection_def)

lemma Agent_close_fields:
  "connection (Agent_close r s) = None"
  "syncing (Agent_close r s) = False"
  "synced (Agent_close r s) = False"
  "handshaking (Agent_close r s) = handshaking s"
  "knownReceipts (Agent_close r s) = knownReceipts s"
  "pingInterval (Agent_close r s) = pingInterval s"
  "BlockStore (Agent_close r s) = BlockStore s"
  "TransactionStore (Agent_close r s) = TransactionStore s"
  "fired (Agent_close r s) = fired s @ [CLOSE r]"
  "logged (Agent_close r s) = logged s @ [Debug ''Agent: Closed:'' r]"
  "calls (Agent_close r s) = calls s @ (case connection s of None \<Rightarrow> [] | Some c \<Rightarrow> [CloseConnection r])"
  "intervals (Agent_close r s) = (intervals s)(pingInterval s := None)"
  "nextTimerId (Agent_close r s) = nextTimerId s"
  "pending (Agent_close r s) = pending s"
  by (simp_all add: Agent_close_def Let_def split: option.splits)

subsection \<open>close\<close>

text \<open>
  C4 (as the code has it). \<open>close\<close> has no guard: a second call leaves the Agent's
  fields, the stores, the timers and the calls on the connection as the first call left
  them (the connection stays \<^verbatim>\<open>null\<close> and is not closed again, \<open>syncing\<close> and \<open>synced\<close>
  stay false), but it writes its debug line and fires \<open>CLOSE\<close> once more. Every call of
  \<open>close\<close> fires one \<open>CLOSE\<close> event with its reason.
\<close>

theorem close_again:
  "Agent_close r2 (Agent_close r1 s) =
     (Agent_close r1 s)\<lparr> logged := logged (Agent_close r1 s) @ [Debug ''Agent: Closed:'' r2],
                          fired := fired (Agent_close r1 s) @ [CLOSE r2] \<rparr> \<and>
   connection (Agent_close r2 (Agent_close r1 s)) = None \<and>
   \<not> syncing (Agent_close r2 (Agent_close r1 s)) \<and>
   \<not> synced (Agent_close r2 (Agent_close r1 s)) \<and>
   calls (Agent_close r2 (Agent_close r1 s)) = calls (Agent_close r1 s) \<and>
   intervals (Agent_close r2 (Agent_close r1 s)) = intervals (Agent_close r1 s) \<and>
   fired (Agent_close r2 (Agent_close r1 s)) = fired s @ [CLOSE r1, CLOSE r2]"
  by (simp add: Agent_close_def Let_def split: option.splits)

text \<open>Closing an Agent twice fires \<open>CLOSE\<close> twice, so the second call does not leave the
  state unchanged.\<close>

theorem close_again_counterexample:
  "Agent_close ''again'' (Agent_close ''Ping timeout'' toyAgent) \<noteq> Agent_close ''Ping timeout'' toyAgent \<and>
   fired (Agent_close ''again'' (Agent_close ''Ping timeout'' toyAgent)) =
     [SYNCING, CLOSE ''Ping timeout'', CLOSE ''again'']"
proof -
  have f: "fired (Agent_close ''again'' (Agent_close ''Ping timeout'' toyAgent)) =
     [SYNCING, CLOSE ''Ping timeout'', CLOSE ''again'']"
    by (simp add: Agent_close_fields toyAgent_def)
  have g: "fired (Agent_close ''Ping timeout'' toyAgent) = [SYNCING, CLOSE ''Ping timeout'']"
    by (simp add: Agent_close_fields toyAgent_def)
  from f g have "Agent_close ''again'' (Agent_close ''Ping timeout'' toyAgent) \<noteq> Agent_close ''Ping timeout'' toyAgent"
    by (metis list.inject list.distinct(1))
  with f show ?thesis by simp
qed

subsection \<open>The operations that need a synchronised Agent\<close>

text \<open>
  When \<open>synced\<close> is false, each of the nine guarded operations fails with the error
  "Agent not synced" and returns the state as it was: no call on the connection, no
  change. \<open>synced\<close> is false after every \<open>close\<close>. \<open>estimateFees\<close> has no guard: on a
  connection it returns one value per target, \<open>-1\<close> where the estimate failed, whatever
  \<open>synced\<close> is, and without a connection a call with targets fails with the \<open>TypeError\<close>
  of reading \<open>estimateFee\<close> of \<^verbatim>\<open>null\<close>.
\<close>

lemma notSynced_guard:
  assumes "\<not> synced s"
  shows "Agent_getBalance L address s = (Inl (Error ''Agent not synced''), s) \<and>
         Agent_getTransactionReceipts L address s = (Inl (Error ''Agent not synced''), s) \<and>
         Agent_getTransaction L hash block s = (Inl (Error ''Agent not synced''), s) \<and>
         Agent_getBlockHeader L h s = (Inl (Error ''Agent not synced''), s) \<and>
         Agent_getFeeHistogram s = (Inl (Error ''Agent not synced''), s) \<and>
         Agent_getMinimumRelayFee s = (Inl (Error ''Agent not synced''), s) \<and>
         Agent_broadcastTransaction L rawTx s = (Inl (Error ''Agent not synced''), s) \<and>
         Agent_subscribe L addresses s = (Inl (Error ''Agent not synced''), s) \<and>
         Agent_getPeers L s = (Inl (Error ''Agent not synced''), s) \<and>
         \<not> synced (Agent_close reason s0) \<and>
         fst (Agent_estimateFees targetBlocks s) \<noteq> Inl (Error ''Agent not synced'') \<and>
         (\<forall>c. connection s = Some c \<longrightarrow>
            Agent_estimateFees targetBlocks s =
              (Inr (map (\<lambda>target. case estimateFee c target of Inl e \<Rightarrow> - 1 | Inr v \<Rightarrow> v) targetBlocks),
               s\<lparr> calls := calls s @ map EstimateFee targetBlocks \<rparr>)) \<and>
         (connection s = None \<and> targetBlocks \<noteq> [] \<longrightarrow>
            Agent_estimateFees targetBlocks s = (Inl (TypeError ''this.connection is null''), s))"
  using assms
  by (simp add: Agent_getBalance_def Agent_getTransactionReceipts_def Agent_getTransaction_def
      Agent_getBlockHeader_def Agent_getFeeHistogram_def Agent_getMinimumRelayFee_def
      Agent_broadcastTransaction_def Agent_subscribe_def Agent_getPeers_def notSynced_def
      Agent_close_fields Agent_estimateFees_def nullConnection_def split: option.splits)

subsection \<open>onBlock\<close>

lemma getBlockHeader_height: "getBlockHeader L sock n = Inr p \<Longrightarrow> blockHeight p = n"
  by (auto simp: getBlockHeader_def blockHeaderToPlain_def await_Inr_iff)



lemma onBlock_fetched:
  assumes "BlockStore s (blockHeight block - 1) = None" "0 < blockHeight block"
    "connection s = Some c" "getBlockHeader L (socket c) (blockHeight block - 1) = Inr p"
  shows "\<exists>s'. onBlock L block s = (Inr (), s') \<and>
           calls s' = calls s @ [GetBlockHeader (blockHeight block - 1)] \<and>
           (Some (blockHash p) = prevHash block \<longrightarrow>
              BlockStore s' = (BlockStore s)(blockHeight block - 1 \<mapsto> p, blockHeight block \<mapsto> block) \<and>
              fired s' = fired s @ [BLOCK block] @ (if syncing s then [SYNCED] else []) \<and>
              logged s' = logged s) \<and>
           (Some (blockHash p) \<noteq> prevHash block \<longrightarrow>
              BlockStore s' = (BlockStore s)(blockHeight block - 1 \<mapsto> p) \<and>
              fired s' = fired s @ (if syncing s then [SYNCED] else []) \<and>
              logged s' = logged s @ [Warn ''Agent: Received non-consecutive block:'' block])"
  using assms getBlockHeader_height [OF assms(4)]
  by (simp add: onBlock_def Let_def onConnection_def)

lemma onBlock_failed:
  assumes "onBlock L block s = (Inl e, s')"
  shows "s' = s \<or> s' = s\<lparr> calls := calls s @ [GetBlockHeader (blockHeight block - 1)] \<rparr>
           \<or> (\<exists>p. s' = s\<lparr> calls := calls s @ [GetBlockHeader (blockHeight block - 1)],
                            BlockStore := (BlockStore s)(blockHeight p \<mapsto> p) \<rparr>)"
  using assms
  by (auto simp: onBlock_def Let_def onConnection_def split: if_splits option.splits sum.splits prod.splits)

lemma onBlock_done:
  assumes "onBlock L block s = (Inr u, s')"
  shows "syncing s' = False \<and> synced s' = (synced s \<or> syncing s) \<and>
         connection s' = connection s \<and> knownReceipts s' = knownReceipts s \<and>
         handshaking s' = handshaking s \<and> TransactionStore s' = TransactionStore s \<and>
         (\<exists>evs. fired s' = fired s @ evs @ (if syncing s then [SYNCED] else []) \<and>
                 (evs = [] \<or> evs = [BLOCK block])) \<and>
         (syncing s \<longrightarrow> pingInterval s' = nextTimerId s \<and>
                          intervals s' = (intervals s)(nextTimerId s \<mapsto> CONNECTIVITY_CHECK_INTERVAL) \<and>
                          nextTimerId s' = nextTimerId s + 1) \<and>
         (\<not> syncing s \<longrightarrow> pingInterval s' = pingInterval s \<and> intervals s' = intervals s \<and>
                          nextTimerId s' = nextTimerId s)"
  using assms
  by (auto simp: onBlock_def Let_def onConnection_def split: if_splits option.splits sum.splits prod.splits)

subsection \<open>What onReceipts, settle and ping leave alone\<close>

lemma announce_keeps:
  "knownReceipts (announce x block s) = knownReceipts s"
  "BlockStore (announce x block s) = BlockStore s"
  "calls (announce x block s) = calls s"
  by (auto simp: announce_def split: sum.splits option.splits)

lemma settle_keeps:
  "knownReceipts (settle k s) = knownReceipts s"
  "BlockStore (settle k s) = BlockStore s"
  "calls (settle k s) = calls s"
proof -
  have "knownReceipts (settle k s) = knownReceipts s \<and> BlockStore (settle k s) = BlockStore s \<and>
        calls (settle k s) = calls s"
  proof (cases "k < length (pending s)")
    case True
    then show ?thesis
      by (cases "outcome (pending s ! k)") (simp_all add: settle_def Let_def announce_keeps)
  next
    case False
    then show ?thesis by (simp add: settle_def)
  qed
  then show "knownReceipts (settle k s) = knownReceipts s" "BlockStore (settle k s) = BlockStore s"
    "calls (settle k s) = calls s"
    by simp_all
qed

lemma settleAll_keeps:
  "knownReceipts (settleAll ks s) = knownReceipts s \<and> BlockStore (settleAll ks s) = BlockStore s \<and>
   calls (settleAll ks s) = calls s"
  unfolding settleAll_def
  by (induction ks arbitrary: s) (simp_all add: settle_keeps)

lemma Agent_getBlockHeader_result:
  assumes "Agent_getBlockHeader L h s = (x, s')"
  shows "knownReceipts s' = knownReceipts s \<and> BlockStore s' = BlockStore s \<and>
         (\<forall>b. x = Inr b \<longrightarrow> blockHeight b = h)"
  using assms
  by (auto simp: Agent_getBlockHeader_def onConnection_def getBlockHeader_height
           split: if_splits option.splits)

lemma receiptBlock_keeps:
  assumes "receiptBlock L receipt during s = (x, during', s')"
  shows "knownReceipts s' = knownReceipts s \<and>
         (\<forall>k v. BlockStore s k = Some v \<longrightarrow> BlockStore s' k = Some v)"
proof (cases "r_blockHeight receipt > 0 \<and> BlockStore s (r_blockHeight receipt) = None")
  case False
  with assms have "s' = s"
    by (auto simp: receiptBlock_def split: if_splits option.splits)
  then show ?thesis by simp
next
  case True
  obtain y s1 where g: "Agent_getBlockHeader L (r_blockHeight receipt) s = (y, s1)"
    by (cases "Agent_getBlockHeader L (r_blockHeight receipt) s")
  note r = Agent_getBlockHeader_result [OF g]
  let ?s2 = "settleAll (case during of [] \<Rightarrow> [] | ks # _ \<Rightarrow> ks) s1"
  have k2: "knownReceipts ?s2 = knownReceipts s" "BlockStore ?s2 = BlockStore s"
    using r settleAll_keeps [of "case during of [] \<Rightarrow> [] | ks # _ \<Rightarrow> ks" s1] by simp_all
  show ?thesis
  proof (cases y)
    case (Inl e)
    with assms True g have "s' = ?s2" by (simp add: receiptBlock_def)
    with k2 show ?thesis by simp
  next
    case (Inr b)
    with assms True g have s': "s' = ?s2\<lparr> BlockStore := (BlockStore ?s2)(blockHeight b \<mapsto> b) \<rparr>"
      by (simp add: receiptBlock_def Let_def)
    from r Inr have "blockHeight b = r_blockHeight receipt" by simp
    with True s' k2 show ?thesis by auto
  qed
qed

lemma txCheck_keeps:
  assumes "txCheck L receipt block s = (x, s')"
  shows "knownReceipts s' = knownReceipts s \<and> BlockStore s' = BlockStore s"
proof (cases "TransactionStore s (r_transactionHash receipt)")
  case None
  with assms show ?thesis
    by (cases "connection s") (auto simp: txCheck_def)
next
  case (Some stored)
  with assms show ?thesis
    by (cases block; cases "connection s") (auto simp: txCheck_def)
qed

lemma receiptsLoop_keeps:
  "receiptsLoop L known during receipts s = (x, s') \<Longrightarrow>
     knownReceipts s' = knownReceipts s \<and>
     (\<forall>k v. BlockStore s k = Some v \<longrightarrow> BlockStore s' k = Some v)"
proof (induction receipts arbitrary: s during)
  case Nil
  then show ?case by simp
next
  case (Cons receipt receipts)
  show ?case
  proof (cases "case known (r_transactionHash receipt) of None \<Rightarrow> False
                | Some knownReceipt \<Rightarrow> r_blockHeight knownReceipt = r_blockHeight receipt")
    case True
    with Cons.prems have "receiptsLoop L known during receipts s = (x, s')" by simp
    from Cons.IH [OF this] show ?thesis .
  next
    case False
    obtain b d1 s1 where b: "receiptBlock L receipt during s = (b, d1, s1)"
      by (cases "receiptBlock L receipt during s")
    note k1 = receiptBlock_keeps [OF b]
    show ?thesis
    proof (cases b)
      case (Inl e)
      with Cons.prems False b have "s' = s1" by simp
      with k1 show ?thesis by simp
    next
      case (Inr block)
      obtain t s2 where t: "txCheck L receipt block s1 = (t, s2)" by (cases "txCheck L receipt block s1")
      note k2 = txCheck_keeps [OF t]
      show ?thesis
      proof (cases t)
        case (Inl e)
        with Cons.prems False b Inr t have "s' = s2" by simp
        with k1 k2 show ?thesis by simp
      next
        case created: (Inr u)
        with Cons.prems False b Inr t
        have "receiptsLoop L known d1 receipts s2 = (x, s')" by simp
        from Cons.IH [OF this] k1 k2 show ?thesis by simp
      qed
    qed
  qed
qed

lemma onReceipts_keeps:
  assumes "onReceipts L address receipts during s = (x, s')"
  shows "(\<forall>k v. BlockStore s k = Some v \<longrightarrow> BlockStore s' k = Some v) \<and>
         knownReceipts s' = (case knownReceipts s address of
                               None \<Rightarrow> (knownReceipts s)(address \<mapsto> receiptsByHash receipts)
                             | Some known \<Rightarrow> knownReceipts s)"
proof (cases "knownReceipts s address")
  case None
  with assms show ?thesis by (auto simp: onReceipts_def)
next
  case (Some known)
  with assms have "receiptsLoop L known during receipts s = (x, s')" by (simp add: onReceipts_def)
  from receiptsLoop_keeps [OF this] Some show ?thesis by simp
qed

lemma ping_unfold:
  "ping failedTries answer s =
     (if (case connection s of None \<Rightarrow> False
          | Some c \<Rightarrow> (case answer failedTries of None \<Rightarrow> False | Some d \<Rightarrow> d < PING_TIMEOUT))
      then s\<lparr> calls := calls s @ [Ping] \<rparr>
      else if failedTries > 1
      then Agent_close ''Ping timeout''
             (case connection s of None \<Rightarrow> s | Some c \<Rightarrow> s\<lparr> calls := calls s @ [Ping] \<rparr>)
      else ping (failedTries + 1) answer
             (case connection s of None \<Rightarrow> s | Some c \<Rightarrow> s\<lparr> calls := calls s @ [Ping] \<rparr>))"
  by (subst ping.simps) (simp add: Let_def split: option.splits)

lemma ping_keeps:
  "knownReceipts (ping failedTries answer s) = knownReceipts s \<and>
   BlockStore (ping failedTries answer s) = BlockStore s"
proof (induction failedTries answer s rule: ping.induct)
  case (1 failedTries answer s)
  note IH = this
  define s' where "s' = (case connection s of None \<Rightarrow> s | Some c \<Rightarrow> s\<lparr> calls := calls s @ [Ping] \<rparr>)"
  define cleared where "cleared = (case connection s of None \<Rightarrow> False
          | Some c \<Rightarrow> (case answer failedTries of None \<Rightarrow> False | Some d \<Rightarrow> d < PING_TIMEOUT))"
  have unfold: "ping failedTries answer s =
      (if cleared then s\<lparr> calls := calls s @ [Ping] \<rparr>
       else if failedTries > 1 then Agent_close ''Ping timeout'' s'
       else ping (failedTries + 1) answer s')"
    unfolding s'_def cleared_def by (rule ping_unfold)
  have base: "knownReceipts s' = knownReceipts s" "BlockStore s' = BlockStore s"
    by (simp_all add: s'_def split: option.splits)
  consider (answered) "cleared" | (closing) "\<not> cleared" "failedTries > 1"
    | (again) "\<not> cleared" "\<not> failedTries > 1" by blast
  then show ?case
  proof cases
    case answered
    then show ?thesis using unfold by simp
  next
    case closing
    then show ?thesis using unfold base by (simp add: Agent_close_fields)
  next
    case again
    from IH [OF s'_def cleared_def again]
    show ?thesis using unfold again base by simp
  qed
qed

subsection \<open>Runs\<close>

lemma run_Cons: "run L s (x # xs) = run L (step L s x) xs"
  by (simp add: run_def)


subsection \<open>Accepted headers\<close>




lemma accepts_fetched:
  assumes "BlockStore s (blockHeight block - 1) = None" "0 < blockHeight block"
    "connection s = Some c" "getBlockHeader L (socket c) (blockHeight block - 1) = Inr p"
  shows "accepts L s block \<longleftrightarrow> Some (blockHash p) = prevHash block"
proof -
  from onBlock_fetched [OF assms] obtain s' where s': "onBlock L block s = (Inr (), s')"
    "Some (blockHash p) = prevHash block \<longrightarrow>
       fired s' = fired s @ [BLOCK block] @ (if syncing s then [SYNCED] else [])"
    "Some (blockHash p) \<noteq> prevHash block \<longrightarrow>
       fired s' = fired s @ (if syncing s then [SYNCED] else [])"
    by blast
  show ?thesis
  proof (cases "Some (blockHash p) = prevHash block")
    case True
    with s' show ?thesis by (simp add: accepts_def)
  next
    case False
    with s' show ?thesis by (simp add: accepts_def)
  qed
qed







subsection \<open>onReceipts\<close>

lemma foldl_byHash_other:
  "k \<notin> f ` set rs \<Longrightarrow> foldl (\<lambda>m r. m(f r \<mapsto> r)) m0 rs k = m0 k"
  by (induction rs arbitrary: m0) auto

lemma foldl_byHash_dom:
  "dom (foldl (\<lambda>m r. m(f r \<mapsto> r)) m0 rs) = dom m0 \<union> f ` set rs"
  by (induction rs arbitrary: m0) auto

lemma foldl_byHash_distinct:
  "distinct (map f rs) \<Longrightarrow> r \<in> set rs \<Longrightarrow> foldl (\<lambda>m r. m(f r \<mapsto> r)) m0 rs (f r) = Some r"
proof (induction rs arbitrary: m0)
  case Nil
  then show ?case by simp
next
  case (Cons x rs)
  show ?case
  proof (cases "r = x")
    case True
    with Cons.prems have "f x \<notin> f ` set rs" by auto
    from foldl_byHash_other [OF this, of "m0(f x \<mapsto> x)"] True show ?thesis
      by (simp del: fun_upd_apply) simp
  next
    case False
    with Cons show ?thesis by auto
  qed
qed

lemma receiptsLoop_filter:
  "receiptsLoop L known during receipts s =
   receiptsLoop L known during
     (filter (\<lambda>r. case known (r_transactionHash r) of
                    None \<Rightarrow> True
                  | Some k \<Rightarrow> r_blockHeight k \<noteq> r_blockHeight r) receipts) s"
proof (induction receipts arbitrary: s during)
  case Nil
  then show ?case by simp
next
  case (Cons receipt receipts)
  show ?case
  proof (cases "case known (r_transactionHash receipt) of None \<Rightarrow> False
                | Some knownReceipt \<Rightarrow> r_blockHeight knownReceipt = r_blockHeight receipt")
    case True
    then have "\<not> (case known (r_transactionHash receipt) of None \<Rightarrow> True
                     | Some k \<Rightarrow> r_blockHeight k \<noteq> r_blockHeight receipt)"
      by (simp split: option.splits)
    with True Cons.IH [of during s] show ?thesis by simp
  next
    case False
    then have keep: "case known (r_transactionHash receipt) of None \<Rightarrow> True
                     | Some k \<Rightarrow> r_blockHeight k \<noteq> r_blockHeight receipt"
      by (simp split: option.splits)
    have "receiptsLoop L known during (receipt # receipts) s =
          (case receiptBlock L receipt during s of
              (Inl e, during', s1) \<Rightarrow> (Inl e, s1)
            | (Inr block, during', s1) \<Rightarrow>
                (case txCheck L receipt block s1 of
                   (Inl e, s2) \<Rightarrow> (Inl e, s2)
                 | (Inr u, s2) \<Rightarrow>
                     receiptsLoop L known during'
                       (filter (\<lambda>r. case known (r_transactionHash r) of
                                      None \<Rightarrow> True
                                    | Some k \<Rightarrow> r_blockHeight k \<noteq> r_blockHeight r) receipts)
                       s2))"
      using False by (simp add: Cons.IH split: prod.splits sum.splits)
    also have "\<dots> = receiptsLoop L known during
        (receipt # filter (\<lambda>r. case known (r_transactionHash r) of
                                      None \<Rightarrow> True
                                    | Some k \<Rightarrow> r_blockHeight k \<noteq> r_blockHeight r) receipts) s"
      using False by simp
    finally show ?thesis using keep by simp
  qed
qed

lemma onBlock_known: "knownReceipts (snd (onBlock L block s)) = knownReceipts s"
proof -
  obtain r s' where o: "onBlock L block s = (r, s')" by (cases "onBlock L block s")
  have "knownReceipts s' = knownReceipts s"
  proof (cases r)
    case (Inl e)
    with o onBlock_failed [of L block s e s'] show ?thesis by auto
  next
    case (Inr u)
    with o onBlock_done [of L block s u s'] show ?thesis by auto
  qed
  with o show ?thesis by simp
qed

lemma step_known:
  "knownReceipts (step L s x) =
     (case x of
        Receipts a rs d \<Rightarrow> (case knownReceipts s a of
                              None \<Rightarrow> (knownReceipts s)(a \<mapsto> receiptsByHash rs)
                            | Some known \<Rightarrow> knownReceipts s)
      | _ \<Rightarrow> knownReceipts s)"
proof (cases x)
  case (Header block)
  then show ?thesis by (simp add: onBlock_known)
next
  case (Receipts address receipts during)
  obtain r s' where o: "onReceipts L address receipts during s = (r, s')"
    by (cases "onReceipts L address receipts during s")
  from onReceipts_keeps [OF o] Receipts o show ?thesis by simp
next
  case (Settle k)
  then show ?thesis by (simp add: settle_keeps)
next
  case (Close reason)
  then show ?thesis by (simp add: Agent_close_fields)
next
  case (Tick answer)
  then show ?thesis using ping_keeps [of 0 answer s] by simp
qed

lemma step_known_iff:
  "knownReceipts (step L s x) a \<noteq> None \<longleftrightarrow>
     knownReceipts s a \<noteq> None \<or> (\<exists>rs d. x = Receipts a rs d)"
  by (cases x) (auto simp add: step_known simp del: step.simps split: option.splits)

lemma step_known_stable:
  "knownReceipts s a = Some k \<Longrightarrow> knownReceipts (step L s x) a = Some k"
  by (cases x) (auto simp add: step_known simp del: step.simps split: option.splits)

lemma run_known_iff:
  "knownReceipts (run L s xs) a \<noteq> None \<longleftrightarrow>
     knownReceipts s a \<noteq> None \<or> (\<exists>rs d. Receipts a rs d \<in> set xs)"
proof (induction xs arbitrary: s)
  case Nil
  then show ?case by (simp add: run_def)
next
  case (Cons x xs)
  show ?case
    unfolding run_Cons Cons.IH step_known_iff by auto
qed

lemma run_known_stable:
  "knownReceipts s a = Some k \<Longrightarrow> knownReceipts (run L s xs) a = Some k"
proof (induction xs arbitrary: s)
  case Nil
  then show ?case by (simp add: run_def)
next
  case (Cons x xs)
  from Cons.IH [OF step_known_stable [OF Cons.prems]] show ?case
    by (simp only: run_Cons)
qed

text \<open>
  C6. The first receipts notification for an address stores the receipts, keyed by
  transaction hash, as the baseline of the address and does nothing else: no event, no
  call, no log line, no promise. In a later notification every receipt whose
  \<open>blockHeight\<close> equals that of the baseline receipt with the same hash is skipped: the
  notification has the effect of the notification without these receipts, and none when
  all are skipped; the baseline stays as it is. Over a run, an address has a baseline
  exactly if it had one at the start or a notification for it has arrived, and the
  baseline is the first notification.
\<close>

theorem onReceipts_baseline:
  "(knownReceipts s address = None \<longrightarrow>
      onReceipts L address receipts during s =
        (Inr (), s\<lparr> knownReceipts := (knownReceipts s)(address \<mapsto> receiptsByHash receipts) \<rparr>) \<and>
      dom (receiptsByHash receipts) = r_transactionHash ` set receipts \<and>
      (distinct (map r_transactionHash receipts) \<longrightarrow>
         (\<forall>r \<in> set receipts. receiptsByHash receipts (r_transactionHash r) = Some r))) \<and>
   (\<forall>known. knownReceipts s address = Some known \<longrightarrow>
      onReceipts L address receipts during s =
        onReceipts L address
          (filter (\<lambda>r. case known (r_transactionHash r) of
                         None \<Rightarrow> True
                       | Some k \<Rightarrow> r_blockHeight k \<noteq> r_blockHeight r) receipts) during s \<and>
      knownReceipts (snd (onReceipts L address receipts during s)) = knownReceipts s \<and>
      ((\<forall>r \<in> set receipts. \<exists>k. known (r_transactionHash r) = Some k \<and> r_blockHeight k = r_blockHeight r) \<longrightarrow>
         onReceipts L address receipts during s = (Inr (), s))) \<and>
   (\<forall>a. knownReceipts (run L s xs) a \<noteq> None \<longleftrightarrow>
          knownReceipts s a \<noteq> None \<or> (\<exists>rs d. Receipts a rs d \<in> set xs)) \<and>
   (\<forall>a rs d. knownReceipts s a = None \<longrightarrow>
      knownReceipts (run L s (Receipts a rs d # xs)) a = Some (receiptsByHash rs))"
proof (intro conjI allI impI)
  assume none: "knownReceipts s address = None"
  then show "onReceipts L address receipts during s =
        (Inr (), s\<lparr> knownReceipts := (knownReceipts s)(address \<mapsto> receiptsByHash receipts) \<rparr>)"
    by (simp add: onReceipts_def)
  show "dom (receiptsByHash receipts) = r_transactionHash ` set receipts"
    by (simp add: receiptsByHash_def foldl_byHash_dom)
  assume "distinct (map r_transactionHash receipts)"
  then show "\<forall>r \<in> set receipts. receiptsByHash receipts (r_transactionHash r) = Some r"
    by (simp add: receiptsByHash_def foldl_byHash_distinct)
next
  fix known assume known: "knownReceipts s address = Some known"
  let ?changed = "\<lambda>r. case known (r_transactionHash r) of
                         None \<Rightarrow> True
                       | Some k \<Rightarrow> r_blockHeight k \<noteq> r_blockHeight r"
  show filtered: "onReceipts L address receipts during s =
      onReceipts L address (filter ?changed receipts) during s"
    using known receiptsLoop_filter [of L known during receipts s] by (simp add: onReceipts_def)
  show "knownReceipts (snd (onReceipts L address receipts during s)) = knownReceipts s"
    using onReceipts_keeps [of L address receipts during s "fst (onReceipts L address receipts during s)"
        "snd (onReceipts L address receipts during s)"] known by simp
  assume "\<forall>r \<in> set receipts. \<exists>k. known (r_transactionHash r) = Some k \<and> r_blockHeight k = r_blockHeight r"
  then have "filter ?changed receipts = []"
    by (auto simp: filter_empty_conv)
  with filtered known show "onReceipts L address receipts during s = (Inr (), s)"
    by (simp add: onReceipts_def)
next
  fix a
  show "knownReceipts (run L s xs) a \<noteq> None \<longleftrightarrow>
          knownReceipts s a \<noteq> None \<or> (\<exists>rs d. Receipts a rs d \<in> set xs)"
    by (rule run_known_iff)
next
  fix a rs d assume "knownReceipts s a = None"
  then have "knownReceipts (step L s (Receipts a rs d)) a = Some (receiptsByHash rs)"
    by (simp add: step_known del: step.simps)
  from run_known_stable [OF this] show "knownReceipts (run L s (Receipts a rs d # xs)) a = Some (receiptsByHash rs)"
    by (simp only: run_Cons)
qed

subsection \<open>The ping\<close>

text \<open>
  C8 (as the code has it). The transition to \<open>synced\<close> starts a timer of period 60000 ms
  that calls \<open>ping\<close>; a ping waits 10000 ms for its answer. On a connection, a ping that
  is not answered in time is sent again, up to two more times (\<open>failedTries\<close> 1 and 2):
  an answer in time to the first, second or third ping ends the sequence without closing,
  and when the third ping is not answered in time either, the Agent closes with the
  reason "Ping timeout".
\<close>

theorem ping_retries:
  assumes "connection s = Some c"
  shows "PING_TIMEOUT = 10000 \<and> CONNECTIVITY_CHECK_INTERVAL = 60000 \<and>
    (\<forall>u s'. syncing s \<and> onBlock L block s = (Inr u, s') \<longrightarrow>
       intervals s' (pingInterval s') = Some 60000) \<and>
    ((\<exists>d. answer 0 = Some d \<and> d < 10000) \<longrightarrow>
       ping 0 answer s = s\<lparr> calls := calls s @ [Ping] \<rparr>) \<and>
    (\<not> (\<exists>d. answer 0 = Some d \<and> d < 10000) \<and> (\<exists>d. answer 1 = Some d \<and> d < 10000) \<longrightarrow>
       ping 0 answer s = s\<lparr> calls := calls s @ [Ping, Ping] \<rparr>) \<and>
    (\<not> (\<exists>d. answer 0 = Some d \<and> d < 10000) \<and> \<not> (\<exists>d. answer 1 = Some d \<and> d < 10000) \<and>
     (\<exists>d. answer 2 = Some d \<and> d < 10000) \<longrightarrow>
       ping 0 answer s = s\<lparr> calls := calls s @ [Ping, Ping, Ping] \<rparr>) \<and>
    (\<not> (\<exists>d. answer 0 = Some d \<and> d < 10000) \<and> \<not> (\<exists>d. answer 1 = Some d \<and> d < 10000) \<and>
     \<not> (\<exists>d. answer 2 = Some d \<and> d < 10000) \<longrightarrow>
       ping 0 answer s = Agent_close ''Ping timeout'' (s\<lparr> calls := calls s @ [Ping, Ping, Ping] \<rparr>))"
proof -
  have t: "PING_TIMEOUT = 10000" "CONNECTIVITY_CHECK_INTERVAL = 60000"
    by (simp_all add: PING_TIMEOUT_def CONNECTIVITY_CHECK_INTERVAL_def)
  define a where "a k \<longleftrightarrow> (\<exists>d. answer k = Some d \<and> d < 10000)" for k
  have u: "ping k answer s' =
     (if a k then s'\<lparr> calls := calls s' @ [Ping] \<rparr>
      else if k > 1 then Agent_close ''Ping timeout'' (s'\<lparr> calls := calls s' @ [Ping] \<rparr>)
      else ping (k + 1) answer (s'\<lparr> calls := calls s' @ [Ping] \<rparr>))"
    if "connection s' = Some c" for k s'
    by (subst ping_unfold) (auto simp: that t a_def split: option.splits)
  let ?s1 = "s\<lparr> calls := calls s @ [Ping] \<rparr>"
  let ?s2 = "s\<lparr> calls := calls s @ [Ping, Ping] \<rparr>"
  let ?s3 = "s\<lparr> calls := calls s @ [Ping, Ping, Ping] \<rparr>"
  have c1: "connection ?s1 = Some c" and c2: "connection ?s2 = Some c"
    using assms by simp_all
  have p2: "ping 2 answer ?s2 = (if a 2 then ?s3 else Agent_close ''Ping timeout'' ?s3)"
    by (subst u [OF c2]) simp
  have "ping 1 answer ?s1 = (if a 1 then ?s2 else ping (1 + 1) answer ?s2)"
    by (subst u [OF c1]) (simp del: One_nat_def)
  then have p1: "ping 1 answer ?s1 = (if a 1 then ?s2 else ping 2 answer ?s2)"
    by (simp only: one_add_one)
  have "ping 0 answer s = (if a 0 then ?s1 else ping (0 + 1) answer ?s1)"
    by (subst u [OF assms]) (simp del: One_nat_def)
  then have p0: "ping 0 answer s = (if a 0 then ?s1 else ping 1 answer ?s1)"
    by (simp only: add_0)
  have i: "intervals s' (pingInterval s') = Some 60000"
    if "syncing s \<and> onBlock L block s = (Inr u, s')" for u s'
    using onBlock_done [of L block s u s'] that by (simp add: t)
  show ?thesis
  proof (intro conjI impI allI)
    show "PING_TIMEOUT = 10000" "CONNECTIVITY_CHECK_INTERVAL = 60000" by (rule t)+
  next
    fix u s' assume "syncing s \<and> onBlock L block s = (Inr u, s')"
    then show "intervals s' (pingInterval s') = Some 60000" by (rule i)
  next
    assume "\<exists>d. answer 0 = Some d \<and> d < 10000"
    then have "a 0" by (simp add: a_def)
    then show "ping 0 answer s = ?s1"
      by (simp only: p0 if_True)
  next
    assume "\<not> (\<exists>d. answer 0 = Some d \<and> d < 10000) \<and> (\<exists>d. answer 1 = Some d \<and> d < 10000)"
    then have "\<not> a 0" "a 1" by (simp_all add: a_def del: One_nat_def)
    then show "ping 0 answer s = ?s2"
      by (simp only: p0 p1 if_True if_False)
  next
    assume "\<not> (\<exists>d. answer 0 = Some d \<and> d < 10000) \<and> \<not> (\<exists>d. answer 1 = Some d \<and> d < 10000) \<and>
            (\<exists>d. answer 2 = Some d \<and> d < 10000)"
    then have "\<not> a 0" "\<not> a 1" "a 2" by (simp_all add: a_def del: One_nat_def)
    then show "ping 0 answer s = ?s3"
      by (simp only: p0 p1 p2 if_True if_False)
  next
    assume "\<not> (\<exists>d. answer 0 = Some d \<and> d < 10000) \<and> \<not> (\<exists>d. answer 1 = Some d \<and> d < 10000) \<and>
            \<not> (\<exists>d. answer 2 = Some d \<and> d < 10000)"
    then have "\<not> a 0" "\<not> a 1" "\<not> a 2" by (simp_all add: a_def del: One_nat_def)
    then show "ping 0 answer s = Agent_close ''Ping timeout'' ?s3"
      by (simp only: p0 p1 p2 if_True if_False)
  qed
qed

section \<open>The theorems on the small peer\<close>

lemma toyAgent_fields:
  "connection toyAgent = Some toyApi" "syncing toyAgent" "\<not> synced toyAgent"
  "BlockStore toyAgent = Map.empty" "fired toyAgent = [SYNCING]" "logged toyAgent = []"
  "calls toyAgent = []" "knownReceipts toyAgent = Map.empty" "intervals toyAgent = Map.empty"
  "nextTimerId toyAgent = 1" "TransactionStore toyAgent = Map.empty" "pending toyAgent = []"
  by (simp_all add: toyAgent_def)

lemma toySynced_fields:
  "connection toySynced = Some toyApi" "\<not> syncing toySynced" "synced toySynced"
  "BlockStore toySynced = Map.empty" "fired toySynced = [SYNCING, SYNCED]" "logged toySynced = []"
  "calls toySynced = []" "knownReceipts toySynced = Map.empty"
  "TransactionStore toySynced = Map.empty" "pending toySynced = []"
  by (simp_all add: toySynced_def toyAgent_def)


lemma toyApi_fields:
  "socket toyApi = toySocket" "estimateFee toyApi 1 = Inr 12"
  "estimateFee toyApi 3 = Inl (Error ''no estimate'')"
  by (simp_all add: toyApi_def)

lemma toy_headers:
  "blockHeight toyNext = 171" "prevHash toyNext = Some ''bb''"
  "blockHeight toyFork = 171" "prevHash toyFork = Some ''f1''"
  "blockHeight toyGenesis = 0" "blockHash toyHeader = ''bb''" "blockHeight toyHeader = 170"
  "prevHash toyHeader = Some ''ff''" "blockHash toyParent = ''ff''"
  "blockHeight toyRival = 170" "prevHash toyRival = Some ''ff''" "blockHash toyRival = ''4b''"
  by (simp_all add: toyNext_def toyFork_def toyGenesis_def toyHeader_def toyParent_def toyRival_def)

text \<open>
  C5. On the closed Agent, which is not synced, the nine guarded operations fail with
  "Agent not synced" and leave the state as it is. \<open>estimateFees\<close> has no guard and
  substitutes \<open>-1\<close> for the target whose estimate fails as long as the Agent has its
  connection; on the closed Agent, whose connection is \<^verbatim>\<open>null\<close>, it does not return
  \<open>-1\<close> for each target but fails with the \<open>TypeError\<close> of reading \<open>estimateFee\<close> of
  \<^verbatim>\<open>null\<close>.
\<close>

theorem estimateFees_after_close:
  "\<not> synced (Agent_close ''bye'' toySynced) \<and>
   connection (Agent_close ''bye'' toySynced) = None \<and>
   Agent_getBalance toyLib ''addr'' (Agent_close ''bye'' toySynced) =
     (Inl (Error ''Agent not synced''), Agent_close ''bye'' toySynced) \<and>
   Agent_getTransactionReceipts toyLib ''addr'' (Agent_close ''bye'' toySynced) =
     (Inl (Error ''Agent not synced''), Agent_close ''bye'' toySynced) \<and>
   Agent_getTransaction toyLib ''b1'' (Some toyHeader) (Agent_close ''bye'' toySynced) =
     (Inl (Error ''Agent not synced''), Agent_close ''bye'' toySynced) \<and>
   Agent_getBlockHeader toyLib 170 (Agent_close ''bye'' toySynced) =
     (Inl (Error ''Agent not synced''), Agent_close ''bye'' toySynced) \<and>
   Agent_getFeeHistogram (Agent_close ''bye'' toySynced) =
     (Inl (Error ''Agent not synced''), Agent_close ''bye'' toySynced) \<and>
   Agent_getMinimumRelayFee (Agent_close ''bye'' toySynced) =
     (Inl (Error ''Agent not synced''), Agent_close ''bye'' toySynced) \<and>
   Agent_broadcastTransaction toyLib ''rawb1'' (Agent_close ''bye'' toySynced) =
     (Inl (Error ''Agent not synced''), Agent_close ''bye'' toySynced) \<and>
   Agent_subscribe toyLib (Inr [''addr'']) (Agent_close ''bye'' toySynced) =
     (Inl (Error ''Agent not synced''), Agent_close ''bye'' toySynced) \<and>
   Agent_getPeers toyLib (Agent_close ''bye'' toySynced) =
     (Inl (Error ''Agent not synced''), Agent_close ''bye'' toySynced) \<and>
   Agent_estimateFees [1, 3] toySynced =
     (Inr [12, - 1], toySynced\<lparr> calls := [EstimateFee 1, EstimateFee 3] \<rparr>) \<and>
   Agent_estimateFees [1, 3] toyAgent =
     (Inr [12, - 1], toyAgent\<lparr> calls := [EstimateFee 1, EstimateFee 3] \<rparr>) \<and>
   Agent_estimateFees [1, 3] (Agent_close ''bye'' toySynced) =
     (Inl (TypeError ''this.connection is null''), Agent_close ''bye'' toySynced)"
proof -
  have c: "\<not> synced (Agent_close ''bye'' toySynced)" "connection (Agent_close ''bye'' toySynced) = None"
    by (simp_all add: Agent_close_fields)
  note closed = notSynced_guard [OF c(1), of toyLib "''addr''" "''b1''" "Some toyHeader" 170
      "''rawb1''" "Inr [''addr'']" "''bye''" toySynced "[1, 3]"]
  have e1: "Agent_estimateFees [1, 3] toySynced =
     (Inr [12, - 1], toySynced\<lparr> calls := [EstimateFee 1, EstimateFee 3] \<rparr>)"
    by (simp add: Agent_estimateFees_def toySynced_fields toyApi_fields)
  have e2: "Agent_estimateFees [1, 3] toyAgent =
     (Inr [12, - 1], toyAgent\<lparr> calls := [EstimateFee 1, EstimateFee 3] \<rparr>)"
    by (simp add: Agent_estimateFees_def toyAgent_fields toyApi_fields)
  have e3: "Agent_estimateFees [1, 3] (Agent_close ''bye'' toySynced) =
     (Inl (TypeError ''this.connection is null''), Agent_close ''bye'' toySynced)"
    by (simp add: Agent_estimateFees_def c nullConnection_def)
  show ?thesis
    using closed c e1 e2 e3 by simp
qed

lemma toy_pred: "getBlockHeader toyLib (socket toyApi) 170 = Inr toyHeader"
  by (simp add: toyApi_fields toy_getBlockHeader)






text \<open>
  C3. A syncing Agent receives a header that does not extend the header at the height
  below. The header is not accepted: it is not stored, no \<open>BLOCK\<close> is fired, a warning is
  logged. Yet the Agent becomes \<open>synced\<close>, fires \<open>SYNCED\<close> and starts the ping timer,
  while the promise of \<open>sync\<close>, which only a \<open>BLOCK\<close> event resolves, is rejected with
  "Block timeout".
\<close>

theorem onBlock_dropped_header:
  "syncing toyAgent \<and> BlockStore toyAgent (blockHeight toyFork) = None \<and>
   \<not> accepts toyLib toyAgent toyFork \<and>
   fst (onBlock toyLib toyFork toyAgent) = Inr () \<and>
   BlockStore (snd (onBlock toyLib toyFork toyAgent)) (blockHeight toyFork) = None \<and>
   BLOCK toyFork \<notin> set (fired (snd (onBlock toyLib toyFork toyAgent))) \<and>
   logged (snd (onBlock toyLib toyFork toyAgent)) =
     [Warn ''Agent: Received non-consecutive block:'' toyFork] \<and>
   synced (snd (onBlock toyLib toyFork toyAgent)) \<and>
   \<not> syncing (snd (onBlock toyLib toyFork toyAgent)) \<and>
   fired (snd (onBlock toyLib toyFork toyAgent)) = [SYNCING, SYNCED] \<and>
   intervals (snd (onBlock toyLib toyFork toyAgent))
     (pingInterval (snd (onBlock toyLib toyFork toyAgent))) = Some 60000 \<and>
   syncPromise (fired (snd (onBlock toyLib toyFork toyAgent))) = Inl (Error ''Block timeout'')"
proof -
  have pre: "BlockStore toyAgent (blockHeight toyFork - 1) = None" "0 < blockHeight toyFork"
    "getBlockHeader toyLib (socket toyApi) (blockHeight toyFork - 1) = Inr toyHeader"
    by (simp_all add: toy_headers toyAgent_fields toy_pred)
  from onBlock_fetched [OF pre(1,2) toyAgent_fields(1) pre(3)]
  obtain s' where s': "onBlock toyLib toyFork toyAgent = (Inr (), s')"
    "BlockStore s' = (BlockStore toyAgent)(blockHeight toyFork - 1 \<mapsto> toyHeader)"
    "fired s' = fired toyAgent @ (if syncing toyAgent then [SYNCED] else [])"
    "logged s' = logged toyAgent @ [Warn ''Agent: Received non-consecutive block:'' toyFork]"
    by (auto simp: toy_headers)
  from onBlock_done [OF s'(1)] have d: "synced s'" "\<not> syncing s'"
    "intervals s' (pingInterval s') = Some 60000"
    by (simp_all add: toyAgent_fields CONNECTIVITY_CHECK_INTERVAL_def)
  have n: "\<not> accepts toyLib toyAgent toyFork"
    using accepts_fetched [OF pre(1,2) toyAgent_fields(1) pre(3)] by (simp add: toy_headers)
  have f: "fired s' = [SYNCING, SYNCED]"
    using s'(3) by (simp add: toyAgent_fields)
  have t: "syncPromise (fired s') = Inl (Error ''Block timeout'')"
    unfolding f by (simp add: syncPromise_def)
  show ?thesis
    using s' d n f t by (simp add: toy_headers toyAgent_fields)
qed

lemma ping_connected:
  "connection s = Some c \<Longrightarrow>
   ping k answer s =
     (if (case answer k of None \<Rightarrow> False | Some d \<Rightarrow> d < PING_TIMEOUT)
      then s\<lparr> calls := calls s @ [Ping] \<rparr>
      else if k > 1 then Agent_close ''Ping timeout'' (s\<lparr> calls := calls s @ [Ping] \<rparr>)
      else ping (k + 1) answer (s\<lparr> calls := calls s @ [Ping] \<rparr>))"
  by (subst ping_unfold) simp

text \<open>The first and the second ping are not answered: the Agent stays open and sends a
  third ping, whose answer ends the sequence. When no ping is answered, three pings are
  sent before the connection is closed.\<close>

theorem ping_retries_counterexample:
  "(\<lambda>k::nat. if k = 2 then Some (120::nat) else None) 0 = None \<and>
   (\<lambda>k::nat. if k = 2 then Some (120::nat) else None) 1 = None \<and>
   connection (ping 0 (\<lambda>k. if k = 2 then Some 120 else None) toySynced) = Some toyApi \<and>
   synced (ping 0 (\<lambda>k. if k = 2 then Some 120 else None) toySynced) \<and>
   fired (ping 0 (\<lambda>k. if k = 2 then Some 120 else None) toySynced) = [SYNCING, SYNCED] \<and>
   calls (ping 0 (\<lambda>k. if k = 2 then Some 120 else None) toySynced) = [Ping, Ping, Ping] \<and>
   calls (ping 0 (\<lambda>k. None) toySynced) = [Ping, Ping, Ping, CloseConnection ''Ping timeout'']"
proof -
  let ?s1 = "toySynced\<lparr> calls := [Ping] \<rparr>"
  let ?s2 = "toySynced\<lparr> calls := [Ping, Ping] \<rparr>"
  let ?s3 = "toySynced\<lparr> calls := [Ping, Ping, Ping] \<rparr>"
  have c: "connection toySynced = Some toyApi" "connection ?s1 = Some toyApi" "connection ?s2 = Some toyApi"
    by (simp_all add: toySynced_fields)
  have a2: "ping 2 (\<lambda>k. if k = 2 then Some 120 else None) ?s2 = ?s3"
    by (subst ping_connected [OF c(3)]) (simp add: PING_TIMEOUT_def)
  have a1: "ping 1 (\<lambda>k. if k = 2 then Some 120 else None) ?s1 =
            ping 2 (\<lambda>k. if k = 2 then Some 120 else None) ?s2"
    by (subst ping_connected [OF c(2)]) (simp del: One_nat_def)
  have a0: "ping 0 (\<lambda>k. if k = 2 then Some 120 else None) toySynced =
            ping 1 (\<lambda>k. if k = 2 then Some 120 else None) ?s1"
    by (subst ping_connected [OF c(1)]) (simp add: toySynced_fields del: One_nat_def)
  have b2: "ping 2 (\<lambda>k. None) ?s2 = Agent_close ''Ping timeout'' ?s3"
    by (subst ping_connected [OF c(3)]) simp
  have b1: "ping 1 (\<lambda>k. None) ?s1 = ping 2 (\<lambda>k. None) ?s2"
    by (subst ping_connected [OF c(2)]) (simp del: One_nat_def)
  have b0: "ping 0 (\<lambda>k. None) toySynced = ping 1 (\<lambda>k. None) ?s1"
    by (subst ping_connected [OF c(1)]) (simp add: toySynced_fields del: One_nat_def)
  show ?thesis
    unfolding a0 a1 a2 b0 b1 b2 by (simp add: toySynced_fields Agent_close_fields)
qed

theorem ping_retries_witness:
  "connection toySynced = Some toyApi \<and>
   ping 0 (\<lambda>k. Some 120) toySynced = toySynced\<lparr> calls := [Ping] \<rparr> \<and>
   ping 0 (\<lambda>k. if k = 0 then None else Some 120) toySynced = toySynced\<lparr> calls := [Ping, Ping] \<rparr> \<and>
   ping 0 (\<lambda>k. if k = 2 then Some 120 else None) toySynced = toySynced\<lparr> calls := [Ping, Ping, Ping] \<rparr> \<and>
   ping 0 (\<lambda>k. if k = 2 then Some 10000 else None) toySynced =
     Agent_close ''Ping timeout'' (toySynced\<lparr> calls := [Ping, Ping, Ping] \<rparr>) \<and>
   syncing toyAgent \<and> fst (onBlock toyLib toyNext toyAgent) = Inr () \<and>
   intervals (snd (onBlock toyLib toyNext toyAgent))
     (pingInterval (snd (onBlock toyLib toyNext toyAgent))) = Some 60000"
proof -
  have "BlockStore toyAgent (blockHeight toyNext - 1) = None" "0 < blockHeight toyNext"
    "getBlockHeader toyLib (socket toyApi) (blockHeight toyNext - 1) = Inr toyHeader"
    by (simp_all add: toy_headers toyAgent_fields toy_pred)
  from onBlock_fetched [OF this(1,2) toyAgent_fields(1) this(3)]
  obtain s1 where s1: "onBlock toyLib toyNext toyAgent = (Inr (), s1)"
    by (auto simp: toy_headers)
  have h1: "syncing toyAgent \<and> onBlock toyLib toyNext toyAgent = (Inr (), s1)"
    using s1(1) toyAgent_fields(2) by simp
  note T = ping_retries [OF toyAgent_fields(1), of toyLib toyNext]
  note i = T [THEN conjunct2, THEN conjunct2, THEN conjunct1, rule_format, OF h1]
  note P = ping_retries [OF toySynced_fields(1), of toyLib toyNext]
  have "ping 0 (\<lambda>k. Some 120) toySynced = toySynced\<lparr> calls := [Ping] \<rparr>"
    using P [of "\<lambda>k. Some 120"] by (simp add: toySynced_fields)
  moreover have "ping 0 (\<lambda>k. if k = 0 then None else Some 120) toySynced = toySynced\<lparr> calls := [Ping, Ping] \<rparr>"
    using P [of "\<lambda>k. if k = 0 then None else Some 120"] by (simp add: toySynced_fields)
  moreover have "ping 0 (\<lambda>k. if k = 2 then Some 120 else None) toySynced = toySynced\<lparr> calls := [Ping, Ping, Ping] \<rparr>"
    using P [of "\<lambda>k. if k = 2 then Some 120 else None"] by (simp add: toySynced_fields)
  moreover have "ping 0 (\<lambda>k. if k = 2 then Some 10000 else None) toySynced =
     Agent_close ''Ping timeout'' (toySynced\<lparr> calls := [Ping, Ping, Ping] \<rparr>)"
    using P [of "\<lambda>k. if k = 2 then Some 10000 else None"] by (simp add: toySynced_fields)
  ultimately show ?thesis
    using i s1 toySynced_fields(1) toyAgent_fields(2) by simp
qed

lemma toyKnown_fields:
  "connection toyKnown = Some toyApi" "synced toyKnown"
  "knownReceipts toyKnown ''addr'' = Some (receiptsByHash [toyReceipt])"
  "BlockStore toyKnown = Map.empty" "TransactionStore toyKnown = Map.empty"
  "fired toyKnown = [SYNCING, SYNCED]" "calls toyKnown = []" "logged toyKnown = []"
  "pending toyKnown = []"
  by (simp_all add: toyKnown_def toySynced_fields)

lemma toyReceipt_fields:
  "r_blockHeight toyReceipt = 0" "r_transactionHash toyReceipt = ''b1''"
  by (simp_all add: toyReceipt_def)

lemma toy_baseline:
  "receiptsByHash [toyReceipt] ''b1'' = Some toyReceipt"
  "receiptsByHash [toyReceipt] ''f4'' = None"
  by (simp_all add: receiptsByHash_def toyReceipt_def)

lemma toy_getTransaction:
  "getTransaction toyLib toySocket ''b1'' (Some (Inr toyHeader)) =
     Inr (toyPlain\<lparr> tx_blockHash := Some ''bb'', tx_blockHeight := Some 170,
                     tx_timestamp := Some 1231731025 \<rparr>)"
  "getTransaction toyLib toySocket ''f4'' None = Inl (Error ''unknown transaction'')"
proof -
  have r: "getTransactionMerkleRoot toyLib toySocket ''b1'' 170 = Inr ''414''"
    using getTransactionMerkleRoot_spec [OF toy_proof, of toyLib] by (simp add: toy_root)
  show "getTransaction toyLib toySocket ''b1'' (Some (Inr toyHeader)) =
     Inr (toyPlain\<lparr> tx_blockHash := Some ''bb'', tx_blockHeight := Some 170,
                     tx_timestamp := Some 1231731025 \<rparr>)"
    by (simp add: getTransaction_def r toy_raw toy_plain_header toyHeader_def)
  show "getTransaction toyLib toySocket ''f4'' None = Inl (Error ''unknown transaction'')"
    by (simp add: getTransaction_def toySocket_def)
qed

lemma toy_mined:
  "fst (onReceipts toyLib ''addr'' [toyReceipt\<lparr> r_blockHeight := 170 \<rparr>] [] toyKnown) = Inr ()"
  "fired (snd (onReceipts toyLib ''addr'' [toyReceipt\<lparr> r_blockHeight := 170 \<rparr>] [] toyKnown)) =
     [SYNCING, SYNCED]"
  "calls (snd (onReceipts toyLib ''addr'' [toyReceipt\<lparr> r_blockHeight := 170 \<rparr>] [] toyKnown)) =
     [GetBlockHeader 170, GetTransaction ''b1'' (Some toyHeader)]"
  "TransactionStore (snd (onReceipts toyLib ''addr'' [toyReceipt\<lparr> r_blockHeight := 170 \<rparr>] [] toyKnown)) =
     Map.empty"
  "pending (snd (onReceipts toyLib ''addr'' [toyReceipt\<lparr> r_blockHeight := 170 \<rparr>] [] toyKnown)) =
     [\<lparr> outcome = Inr (toyPlain\<lparr> tx_blockHash := Some ''bb'', tx_blockHeight := Some 170,
                                    tx_timestamp := Some 1231731025 \<rparr>),
        mined = Some toyHeader, stores = True \<rparr>]"
  by (simp_all add: onReceipts_def toyKnown_fields toy_baseline toyReceipt_fields receiptBlock_def
      Agent_getBlockHeader_def onConnection_def toyApi_fields toy_getBlockHeader txCheck_def
      Let_def toy_getTransaction toy_headers settleAll_def)

lemma toy_getTransaction_plain:
  "getTransaction toyLib toySocket ''b1'' None = Inr toyPlain"
  by (simp add: getTransaction_def toy_raw toy_plain await_def)

text \<open>Two changed receipts in one notification, the second of which waits for its
  header: when nothing settles during that wait the transaction is requested twice and no
  event has been fired at the end of the call; when the first promise settles during the
  wait, its transaction is in TransactionStore by the time the second receipt reads it,
  and the second check is a \<open>proofTransaction\<close>.\<close>

lemma toy_unawaited:
  "calls (snd (onReceipts toyLib ''addr''
      [toyReceipt\<lparr> r_blockHeight := - 1 \<rparr>, toyReceipt\<lparr> r_blockHeight := 170 \<rparr>] [] toyKnown)) =
     [GetTransaction ''b1'' None, GetBlockHeader 170, GetTransaction ''b1'' (Some toyHeader)]"
  "fired (snd (onReceipts toyLib ''addr''
      [toyReceipt\<lparr> r_blockHeight := - 1 \<rparr>, toyReceipt\<lparr> r_blockHeight := 170 \<rparr>] [] toyKnown)) =
     [SYNCING, SYNCED]"
  "map mined (pending (snd (onReceipts toyLib ''addr''
      [toyReceipt\<lparr> r_blockHeight := - 1 \<rparr>, toyReceipt\<lparr> r_blockHeight := 170 \<rparr>] [] toyKnown))) =
     [None, Some toyHeader]"
  "calls (snd (onReceipts toyLib ''addr''
      [toyReceipt\<lparr> r_blockHeight := - 1 \<rparr>, toyReceipt\<lparr> r_blockHeight := 170 \<rparr>] [[0]] toyKnown)) =
     [GetTransaction ''b1'' None, GetBlockHeader 170, ProofTransaction ''b1'' toyHeader]"
  "fired (snd (onReceipts toyLib ''addr''
      [toyReceipt\<lparr> r_blockHeight := - 1 \<rparr>, toyReceipt\<lparr> r_blockHeight := 170 \<rparr>] [[0]] toyKnown)) =
     [SYNCING, SYNCED, TRANSACTION_ADDED toyPlain]"
  "map mined (pending (snd (onReceipts toyLib ''addr''
      [toyReceipt\<lparr> r_blockHeight := - 1 \<rparr>, toyReceipt\<lparr> r_blockHeight := 170 \<rparr>] [[0]] toyKnown))) =
     [Some toyHeader]"
  by (simp_all add: onReceipts_def toyKnown_fields toy_baseline toyReceipt_fields receiptBlock_def
      Agent_getBlockHeader_def onConnection_def toyApi_fields toy_getBlockHeader txCheck_def
      Let_def toy_getTransaction toy_getTransaction_plain toy_headers settleAll_def settle_def
      announce_def toyPlain_def await_def)

lemma toy_settled:
  "TransactionStore (settle 0 (snd (onReceipts toyLib ''addr'' [toyReceipt\<lparr> r_blockHeight := 170 \<rparr>] [] toyKnown))) ''b1'' =
     Some (toyPlain\<lparr> tx_blockHash := Some ''bb'', tx_blockHeight := Some 170,
                      tx_timestamp := Some 1231731025 \<rparr>)"
  "pending (settle 0 (snd (onReceipts toyLib ''addr'' [toyReceipt\<lparr> r_blockHeight := 170 \<rparr>] [] toyKnown))) = []"
  by (simp_all add: settle_def Let_def announce_def toy_mined toyPlain_def)

theorem onReceipts_baseline_witness:
  "knownReceipts toySynced ''addr'' = None \<and>
   onReceipts toyLib ''addr'' [toyReceipt] [] toySynced = (Inr (), toyKnown) \<and>
   fired toyKnown = fired toySynced \<and> calls toyKnown = calls toySynced \<and>
   pending toyKnown = pending toySynced \<and>
   distinct (map r_transactionHash [toyReceipt]) \<and>
   receiptsByHash [toyReceipt] ''b1'' = Some toyReceipt \<and>
   knownReceipts toyKnown ''addr'' = Some (receiptsByHash [toyReceipt]) \<and>
   onReceipts toyLib ''addr'' [toyReceipt] [] toyKnown = (Inr (), toyKnown) \<and>
   onReceipts toyLib ''addr'' [toyReceipt, toyReceipt\<lparr> r_blockHeight := 170 \<rparr>] [] toyKnown =
     onReceipts toyLib ''addr'' [toyReceipt\<lparr> r_blockHeight := 170 \<rparr>] [] toyKnown \<and>
   calls (snd (onReceipts toyLib ''addr'' [toyReceipt, toyReceipt\<lparr> r_blockHeight := 170 \<rparr>] [] toyKnown)) =
     [GetBlockHeader 170, GetTransaction ''b1'' (Some toyHeader)] \<and>
   fired (snd (onReceipts toyLib ''addr'' [toyReceipt, toyReceipt\<lparr> r_blockHeight := 170 \<rparr>] [] toyKnown)) =
     [SYNCING, SYNCED] \<and>
   fired (settle 0 (snd (onReceipts toyLib ''addr''
       [toyReceipt, toyReceipt\<lparr> r_blockHeight := 170 \<rparr>] [] toyKnown))) =
     [SYNCING, SYNCED,
      TRANSACTION_MINED (toyPlain\<lparr> tx_blockHash := Some ''bb'', tx_blockHeight := Some 170,
                                    tx_timestamp := Some 1231731025 \<rparr>) toyHeader] \<and>
   TransactionStore (settle 0 (snd (onReceipts toyLib ''addr''
       [toyReceipt, toyReceipt\<lparr> r_blockHeight := 170 \<rparr>] [] toyKnown))) ''b1'' =
     Some (toyPlain\<lparr> tx_blockHash := Some ''bb'', tx_blockHeight := Some 170,
                      tx_timestamp := Some 1231731025 \<rparr>) \<and>
   calls (snd (onReceipts toyLib ''addr''
       [toyReceipt\<lparr> r_blockHeight := - 1 \<rparr>, toyReceipt\<lparr> r_blockHeight := 170 \<rparr>] [] toyKnown)) =
     [GetTransaction ''b1'' None, GetBlockHeader 170, GetTransaction ''b1'' (Some toyHeader)] \<and>
   fired (snd (onReceipts toyLib ''addr''
       [toyReceipt\<lparr> r_blockHeight := - 1 \<rparr>, toyReceipt\<lparr> r_blockHeight := 170 \<rparr>] [] toyKnown)) =
     [SYNCING, SYNCED] \<and>
   calls (snd (onReceipts toyLib ''addr''
       [toyReceipt\<lparr> r_blockHeight := - 1 \<rparr>, toyReceipt\<lparr> r_blockHeight := 170 \<rparr>] [[0]] toyKnown)) =
     [GetTransaction ''b1'' None, GetBlockHeader 170, ProofTransaction ''b1'' toyHeader] \<and>
   fired (snd (onReceipts toyLib ''addr''
       [toyReceipt\<lparr> r_blockHeight := - 1 \<rparr>, toyReceipt\<lparr> r_blockHeight := 170 \<rparr>] [[0]] toyKnown)) =
     [SYNCING, SYNCED, TRANSACTION_ADDED toyPlain] \<and>
   knownReceipts (run toyLib toySynced
       [Receipts ''addr'' [toyReceipt] [], Header toyNext,
        Receipts ''addr'' [toyReceipt\<lparr> r_blockHeight := 170 \<rparr>] [], Settle 0]) ''addr'' =
     Some (receiptsByHash [toyReceipt]) \<and>
   knownReceipts (run toyLib toySynced
       [Receipts ''addr'' [toyReceipt] [], Header toyNext,
        Receipts ''addr'' [toyReceipt\<lparr> r_blockHeight := 170 \<rparr>] [], Settle 0]) ''other'' = None"
proof -
  let ?mined = "toyReceipt\<lparr> r_blockHeight := 170 \<rparr>"
  let ?xs = "[Header toyNext, Receipts ''addr'' [?mined] [], Settle 0]"
  have n: "knownReceipts toySynced ''addr'' = None" "knownReceipts toySynced ''other'' = None"
    by (simp_all add: toySynced_fields)
  have d: "distinct (map r_transactionHash [toyReceipt])" by simp
  note first = onReceipts_baseline [of toySynced "''addr''" toyLib "[toyReceipt]" "[]" ?xs,
      THEN conjunct1, rule_format, OF n(1)]
  have k: "toySynced\<lparr> knownReceipts := (knownReceipts toySynced)(''addr'' \<mapsto> receiptsByHash [toyReceipt]) \<rparr> = toyKnown"
    by (simp add: toyKnown_def toySynced_fields)
  have f1: "onReceipts toyLib ''addr'' [toyReceipt] [] toySynced = (Inr (), toyKnown)"
    using first [THEN conjunct1] by (simp only: k)
  have f2: "receiptsByHash [toyReceipt] ''b1'' = Some toyReceipt"
    using first [THEN conjunct2, THEN conjunct2, rule_format, OF d, of toyReceipt]
    by (simp add: toyReceipt_fields)
  note later = onReceipts_baseline [of toyKnown "''addr''" toyLib "[toyReceipt]" "[]" ?xs,
      THEN conjunct2, THEN conjunct1, rule_format, OF toyKnown_fields(3)]
  have "\<forall>r \<in> set [toyReceipt]. \<exists>k. receiptsByHash [toyReceipt] (r_transactionHash r) = Some k \<and>
          r_blockHeight k = r_blockHeight r"
    by (simp add: toy_baseline toyReceipt_fields)
  with later have f3: "onReceipts toyLib ''addr'' [toyReceipt] [] toyKnown = (Inr (), toyKnown)"
    by blast
  note mixed = onReceipts_baseline [of toyKnown "''addr''" toyLib "[toyReceipt, ?mined]" "[]" ?xs,
      THEN conjunct2, THEN conjunct1, rule_format, OF toyKnown_fields(3), THEN conjunct1]
  have f4: "onReceipts toyLib ''addr'' [toyReceipt, ?mined] [] toyKnown =
            onReceipts toyLib ''addr'' [?mined] [] toyKnown"
    using mixed by (simp add: toy_baseline toyReceipt_fields)
  have f5: "calls (snd (onReceipts toyLib ''addr'' [toyReceipt, ?mined] [] toyKnown)) =
     [GetBlockHeader 170, GetTransaction ''b1'' (Some toyHeader)]"
    "fired (snd (onReceipts toyLib ''addr'' [toyReceipt, ?mined] [] toyKnown)) = [SYNCING, SYNCED]"
    unfolding f4 using toy_mined by simp_all
  have f6: "fired (settle 0 (snd (onReceipts toyLib ''addr'' [toyReceipt, ?mined] [] toyKnown))) =
     [SYNCING, SYNCED,
      TRANSACTION_MINED (toyPlain\<lparr> tx_blockHash := Some ''bb'', tx_blockHeight := Some 170,
                                    tx_timestamp := Some 1231731025 \<rparr>) toyHeader]"
    unfolding f4 by (simp add: settle_def Let_def announce_def toy_mined)
  have f8: "TransactionStore (settle 0 (snd (onReceipts toyLib ''addr'' [toyReceipt, ?mined] [] toyKnown))) ''b1'' =
     Some (toyPlain\<lparr> tx_blockHash := Some ''bb'', tx_blockHeight := Some 170,
                      tx_timestamp := Some 1231731025 \<rparr>)"
    unfolding f4 by (rule toy_settled(1))
  note whole = onReceipts_baseline [of toySynced "''addr''" toyLib "[toyReceipt]" "[]"
      "Receipts ''addr'' [toyReceipt] [] # ?xs", THEN conjunct2, THEN conjunct2]
  have f7: "knownReceipts (run toyLib toySynced (Receipts ''addr'' [toyReceipt] [] # ?xs)) ''other'' = None"
    using whole [THEN conjunct1, rule_format, of "''other''"] n(2) by simp
  note start = onReceipts_baseline [of toySynced "''addr''" toyLib "[toyReceipt]" "[]" ?xs,
      THEN conjunct2, THEN conjunct2, THEN conjunct2, rule_format, OF n(1), of "[toyReceipt]" "[]"]
  show ?thesis
    using n(1) f1 d f2 toyKnown_fields(3) f3 f4 f5 f6 f7 f8 start toy_unawaited(1,2,4,5)
    by (simp add: toyKnown_fields toySynced_fields)
qed

lemma toy_scripthash: "addressToScriptHash toyLib ''addr'' = Inr ''411''"
  by (simp add: addressToScriptHash_def toyLib_def toyChar_def)

lemma toy_receipts: "getReceipts toyLib toySocket ''addr'' False = Inr (map toReceipt toyHistory)"
  by (simp add: getReceipts_def toy_scripthash toySocket_def)

lemma toy_sorted:
  "sortHistory (map toReceipt toyHistory) =
     [\<lparr> r_blockHeight = 0, r_transactionHash = ''f4'', r_fee = None \<rparr>,
      \<lparr> r_blockHeight = 170, r_transactionHash = ''b1'', r_fee = None \<rparr>,
      \<lparr> r_blockHeight = - 1, r_transactionHash = ''4f'', r_fee = Some 226 \<rparr>]"
  by (simp add: sortHistory_def toyHistory_def toReceipt_def heightOrMax_def MAX_SAFE_INTEGER_def)

theorem getHistory_cut_witness:
  "0 < (100::int) \<and>
   getReceipts toyLib toySocket ''addr'' False = Inr (map toReceipt toyHistory) \<and>
   reduceToLimit None (sortHistory (map toReceipt toyHistory)) =
     [\<lparr> r_blockHeight = 0, r_transactionHash = ''f4'', r_fee = None \<rparr>,
      \<lparr> r_blockHeight = 170, r_transactionHash = ''b1'', r_fee = None \<rparr>,
      \<lparr> r_blockHeight = - 1, r_transactionHash = ''4f'', r_fee = Some 226 \<rparr>] \<and>
   getHistory toyLib toySocket ''addr'' 100 [] None =
     Inr (fetchTransactions toyLib toySocket Map.empty Map.empty []
       [\<lparr> r_blockHeight = 0, r_transactionHash = ''f4'', r_fee = None \<rparr>,
        \<lparr> r_blockHeight = 170, r_transactionHash = ''b1'', r_fee = None \<rparr>]) \<and>
   getHistory toyLib toySocket ''addr'' 100 [] None =
     Inr [toyPlain\<lparr> tx_blockHash := Some ''bb'', tx_blockHeight := Some 170,
                     tx_timestamp := Some 1231731025 \<rparr>] \<and>
   getHistory toyLib toySocket ''addr'' 200 [] None =
     Inr (fetchTransactions toyLib toySocket Map.empty Map.empty []
       [\<lparr> r_blockHeight = 0, r_transactionHash = ''f4'', r_fee = None \<rparr>]) \<and>
   getHistory toyLib toySocket ''addr'' 200 [] None = Inr []"
proof -
  let ?f4 = "\<lparr> r_blockHeight = 0, r_transactionHash = ''f4'', r_fee = None \<rparr>"
  let ?b1 = "\<lparr> r_blockHeight = 170, r_transactionHash = ''b1'', r_fee = None \<rparr>"
  let ?u = "\<lparr> r_blockHeight = - 1, r_transactionHash = ''4f'', r_fee = Some 226 \<rparr>"
  have h: "[?f4, ?b1, ?u] = reduceToLimit None (sortHistory (map toReceipt toyHistory))"
    by (simp add: reduceToLimit_def toy_sorted)
  have k: "Map.empty = foldl (\<lambda>m receipt. m(r_transactionHash receipt \<mapsto> receipt)) Map.empty ([] :: Receipt list)"
    by simp
  note low = getHistory_cut [of 100, OF _ toy_receipts h k, simplified]
  note high = getHistory_cut [of 200, OF _ toy_receipts h k, simplified]
  have g1: "getHistory toyLib toySocket ''addr'' 100 [] None =
     Inr (fetchTransactions toyLib toySocket Map.empty Map.empty [] [?f4, ?b1])"
    using low by simp
  have g2: "getHistory toyLib toySocket ''addr'' 200 [] None =
     Inr (fetchTransactions toyLib toySocket Map.empty Map.empty [] [?f4])"
    using high by (auto simp: less_Suc_eq_0_disj nth_Cons')
  have e1: "fetchTransactions toyLib toySocket Map.empty Map.empty [] [?f4, ?b1] =
     [toyPlain\<lparr> tx_blockHash := Some ''bb'', tx_blockHeight := Some 170,
                     tx_timestamp := Some 1231731025 \<rparr>]"
    by (simp add: toy_getTransaction toy_getBlockHeader)
  have e2: "fetchTransactions toyLib toySocket Map.empty Map.empty [] [?f4] = []"
    by (simp add: toy_getTransaction)
  show ?thesis
    using g1 g2 e1 e2 toy_receipts h by simp
qed

end
